theory Spec2Isabelle
  imports Complex_Main "HOL-Library.AList"
begin

section \<open>Python values and exceptions\<close>

text \<open>
  The simulation is Python 3 (\<^verbatim>\<open>int(input(...))\<close>, \<^verbatim>\<open>print(...)\<close> with several arguments),
  so \<^verbatim>\<open>/\<close> on two integers is true division. A float is modelled as the real
  number it denotes, and every arithmetic operation of the source rounds its exact result
  to a double (section on floating-point arithmetic below).

  Exceptions are values of \<open>py_error\<close>. \<open>NoChildException\<close> is the class the source
  declares; the others are the built-in exceptions that the expressions of the source
  can raise: a dictionary subscript with a missing key, a subscript or membership test
  with an unhashable key, a division by zero, and a list subscript out of range.
\<close>

datatype py_error = NoChildException | KeyError | TypeError | ZeroDivisionError | IndexError

text \<open>
  A drug is whatever object the caller hands over. The source compares drugs with
  \<^verbatim>\<open>in\<close>, iterates over them and uses them as dictionary keys, so the model keeps
  the two shapes that matter: a string and a list of values.
\<close>

datatype pyval = Str string | Lst "pyval list"

text \<open>\<^verbatim>\<open>for d in x\<close>: a string yields its characters as one-character strings, a list
  its elements.\<close>

fun py_iter :: "pyval \<Rightarrow> pyval list" where
  "py_iter (Str s) = map (\<lambda>c. Str [c]) s"
| "py_iter (Lst xs) = xs"

section \<open>Floating-point arithmetic\<close>

text \<open>
  Python's \<^verbatim>\<open>float\<close> is the IEEE 754 binary64 format, and each operation returns the
  exact result rounded to the nearest double, ties to the even significand. \<open>rne\<close>
  is that rounding on the integers. \<open>round64\<close> rounds a real to the grid of doubles
  around it: in the binade \<open>2^e \<le> |x| < 2^(e+1)\<close> the doubles are the multiples of
  \<open>2^(e-52)\<close> (53 significant bits), and below \<open>2^(-1022)\<close> they are the multiples
  of \<open>2^(-1074)\<close> (the subnormal numbers), so that a small enough result rounds to
  zero. The two zeros of the format compare equal and are both the real \<open>0\<close>. A
  result of magnitude \<open>2^1024\<close> or more, which Python turns into an infinity, lies
  outside the model; no product or quotient of probabilities and population counts
  comes near it.
\<close>

definition rne :: "real \<Rightarrow> int" where
  "rne y =
     (let f = \<lfloor>y\<rfloor>; r = y - of_int f
      in if r < 1/2 then f else if 1/2 < r then f + 1 else if even f then f else f + 1)"

definition round64 :: "real \<Rightarrow> real" where
  "round64 x =
     (if x = 0 then 0
      else (let e = max \<lfloor>log 2 \<bar>x\<bar>\<rfloor> (- 1022);
                q = 2 powr of_int (e - 52)
            in q * of_int (rne (x / q))))"

text \<open>
  The operators of the source. In \<^verbatim>\<open>1 - x\<close> the integer \<open>1\<close> becomes the double
  \<open>1.0\<close> exactly; \<^verbatim>\<open>a / b\<close> on two integers is the correctly rounded quotient.
  Division by zero raises and is tested where the source divides.
\<close>

definition fl_sub :: "real \<Rightarrow> real \<Rightarrow> real" where
  "fl_sub x y = round64 (x - y)"

definition fl_mul :: "real \<Rightarrow> real \<Rightarrow> real" where
  "fl_mul x y = round64 (x * y)"

definition fl_div :: "real \<Rightarrow> real \<Rightarrow> real" where
  "fl_div x y = round64 (x / y)"

section \<open>The state outside the objects\<close>

text \<open>
  The state outside the objects: the sequence of values that successive calls of
  \<^verbatim>\<open>random.random()\<close> return (\<open>rng\<close>, read at position \<open>pos\<close>), and the number of
  virus objects allocated so far (\<open>nextId\<close>), which is the identity of the next one.
\<close>

record world =
  rng :: "nat \<Rightarrow> real"
  pos :: nat
  nextId :: nat

definition random_random :: "world \<Rightarrow> real \<times> world" where
  "random_random w = (rng w (pos w), w\<lparr>pos := pos w + 1\<rparr>)"

section \<open>SimpleVirus\<close>

text \<open>
  A virus object is its identity (what \<^verbatim>\<open>is\<close> compares) together with its
  attributes. No method of the simulation assigns to an attribute of a virus after
  \<^verbatim>\<open>__init__\<close>, so the attributes travel with the reference.
\<close>

record SimpleVirus =
  ident :: nat
  maxBirthProb :: real
  clearProb :: real

definition SimpleVirus_init :: "real \<Rightarrow> real \<Rightarrow> world \<Rightarrow> SimpleVirus \<times> world" where
  "SimpleVirus_init mb cp w =
     (\<lparr>ident = nextId w, maxBirthProb = mb, clearProb = cp\<rparr>, w\<lparr>nextId := nextId w + 1\<rparr>)"

definition doesClear :: "'a SimpleVirus_scheme \<Rightarrow> world \<Rightarrow> bool \<times> world" where
  "doesClear self w =
     (let (r, w1) = random_random w in
      if clearProb self \<ge> r then (True, w1) else (False, w1))"

definition SimpleVirus_reproduce ::
  "'a SimpleVirus_scheme \<Rightarrow> real \<Rightarrow> world \<Rightarrow> (py_error + SimpleVirus) \<times> world" where
  "SimpleVirus_reproduce self popDensity' w =
     (let (r, w1) = random_random w in
      if fl_mul (maxBirthProb self) (fl_sub 1 popDensity') \<ge> r
      then (let (child, w2) = SimpleVirus_init (maxBirthProb self) (clearProb self) w1
            in (Inr child, w2))
      else (Inl NoChildException, w1))"

section \<open>Patient\<close>

text \<open>
  \<open>survivorViruses\<close>, \<open>newViruses\<close> and \<open>popDensity\<close> are attributes that
  \<^verbatim>\<open>update\<close> creates on the object; \<^verbatim>\<open>__init__\<close> does not set them. Every
  \<^verbatim>\<open>update\<close> assigns them before it reads them, so the constructor of the model
  fills them with placeholders.
\<close>

record 'v Patient =
  viruses :: "'v list"
  maxPop :: int
  survivorViruses :: "'v list"
  newViruses :: "'v list"
  popDensity :: real

definition Patient_init :: "SimpleVirus list \<Rightarrow> int \<Rightarrow> SimpleVirus Patient" where
  "Patient_init vs m =
     \<lparr>viruses = vs, maxPop = m, survivorViruses = [], newViruses = [], popDensity = 0\<rparr>"

definition getTotalPop :: "('v, 'b) Patient_scheme \<Rightarrow> nat" where
  "getTotalPop self = length (viruses self)"

text \<open>The first loop of \<^verbatim>\<open>update\<close>, the same text in both classes:
  \<^verbatim>\<open>for i in self.viruses: if not i.doesClear(): self.survivorViruses.append(i)\<close>.\<close>

fun clear_loop ::
  "'a SimpleVirus_scheme list \<Rightarrow> ('a SimpleVirus_scheme, 'b) Patient_scheme \<Rightarrow> world
     \<Rightarrow> ('a SimpleVirus_scheme, 'b) Patient_scheme \<times> world" where
  "clear_loop [] self w = (self, w)"
| "clear_loop (i # rest) self w =
     (let (c, w1) = doesClear i w in
      if \<not> c then clear_loop rest (self\<lparr>survivorViruses := survivorViruses self @ [i]\<rparr>) w1
      else clear_loop rest self w1)"

text \<open>
  The second loop of \<^verbatim>\<open>Patient.update\<close>. The offspring \<^verbatim>\<open>pot\<close> is an object
  without \<^verbatim>\<open>__bool__\<close> or \<^verbatim>\<open>__len__\<close>, so \<^verbatim>\<open>if pot:\<close> always holds. The
  statement under it appends \<^verbatim>\<open>i\<close>, the loop variable. Only \<open>NoChildException\<close> is
  caught.
\<close>

fun Patient_reproduce_loop ::
  "SimpleVirus list \<Rightarrow> SimpleVirus Patient \<Rightarrow> world
     \<Rightarrow> py_error + (SimpleVirus Patient \<times> world)" where
  "Patient_reproduce_loop [] self w = Inr (self, w)"
| "Patient_reproduce_loop (i # rest) self w =
     (case SimpleVirus_reproduce i (popDensity self) w of
        (Inr pot, w1) \<Rightarrow>
          Patient_reproduce_loop rest (self\<lparr>newViruses := newViruses self @ [i]\<rparr>) w1
      | (Inl NoChildException, w1) \<Rightarrow> Patient_reproduce_loop rest self w1
      | (Inl e, w1) \<Rightarrow> Inl e)"

text \<open>\<^verbatim>\<open>len(self.survivorViruses) / self.maxPop\<close> raises when \<open>maxPop\<close> is zero. When
  \<^verbatim>\<open>update\<close> raises, the model keeps the exception only.\<close>

definition Patient_update ::
  "SimpleVirus Patient \<Rightarrow> world \<Rightarrow> py_error + (nat \<times> SimpleVirus Patient \<times> world)" where
  "Patient_update self w =
     (let self1 = self\<lparr>survivorViruses := [], newViruses := []\<rparr>;
          (self2, w1) = clear_loop (viruses self1) self1 w
      in if maxPop self2 = 0 then Inl ZeroDivisionError
         else
           (let self3 = self2\<lparr>popDensity :=
                  fl_div (real (length (survivorViruses self2))) (real_of_int (maxPop self2))\<rparr>
            in case Patient_reproduce_loop (survivorViruses self3) self3 w1 of
                 Inl e \<Rightarrow> Inl e
               | Inr (self4, w2) \<Rightarrow>
                   (let self5 = self4\<lparr>viruses := survivorViruses self4 @ newViruses self4\<rparr>
                    in Inr (length (viruses self5), self5, w2))))"

section \<open>ResistantVirus\<close>

text \<open>
  \<open>resistances\<close> is a dictionary from drug names to flags. Python dictionaries keep
  insertion order and \<^verbatim>\<open>for drug in self.resistances\<close> follows it, one random draw
  per key, so the model is an association list: \<open>map_of\<close> reads it,
  \<open>AList.update\<close> is \<^verbatim>\<open>d[k] = v\<close> (in place for a key already there, at the end for
  a new one).
\<close>

type_synonym dict = "(string \<times> bool) list"

text \<open>\<^verbatim>\<open>k in d\<close> and \<^verbatim>\<open>d[k]\<close>. Both hash the key first, which a list refuses.\<close>

definition dict_contains :: "dict \<Rightarrow> pyval \<Rightarrow> py_error + bool" where
  "dict_contains d k =
     (case k of Str s \<Rightarrow> Inr (map_of d s \<noteq> None) | Lst xs \<Rightarrow> Inl TypeError)"

definition dict_getitem :: "dict \<Rightarrow> pyval \<Rightarrow> py_error + bool" where
  "dict_getitem d k =
     (case k of
        Str s \<Rightarrow> (case map_of d s of Some b \<Rightarrow> Inr b | None \<Rightarrow> Inl KeyError)
      | Lst xs \<Rightarrow> Inl TypeError)"

record ResistantVirus = SimpleVirus +
  resistances :: dict
  mutProb :: real

definition ResistantVirus_init ::
  "real \<Rightarrow> real \<Rightarrow> dict \<Rightarrow> real \<Rightarrow> world \<Rightarrow> ResistantVirus \<times> world" where
  "ResistantVirus_init mb cp rs mp w =
     (\<lparr>ident = nextId w, maxBirthProb = mb, clearProb = cp, resistances = rs, mutProb = mp\<rparr>,
      w\<lparr>nextId := nextId w + 1\<rparr>)"

text \<open>What a method hands back: a Boolean, or \<^verbatim>\<open>None\<close> when control reaches the end
  of the body without a \<^verbatim>\<open>return\<close>.\<close>

datatype pyret = RetBool bool | RetNone

fun truthy :: "pyret \<Rightarrow> bool" where
  "truthy (RetBool b) = b"
| "truthy RetNone = False"

text \<open>\<^verbatim>\<open>isResistantTo\<close> has an \<^verbatim>\<open>if\<close> without \<^verbatim>\<open>else\<close> at the top.\<close>

definition isResistantTo :: "ResistantVirus \<Rightarrow> pyval \<Rightarrow> py_error + pyret" where
  "isResistantTo self drug =
     (case dict_contains (resistances self) drug of
        Inl e \<Rightarrow> Inl e
      | Inr present \<Rightarrow>
          if present
          then (case dict_getitem (resistances self) drug of
                  Inl e \<Rightarrow> Inl e
                | Inr b \<Rightarrow> if b then Inr (RetBool True) else Inr (RetBool False))
          else Inr RetNone)"

text \<open>
  The first loop of \<^verbatim>\<open>ResistantVirus.reproduce\<close>. In
  \<^verbatim>\<open>not self.resistances[drug] or not drug in self.resistances\<close> the subscript is
  evaluated first; the membership test runs only when the flag is true.
\<close>

fun reproduce_gate :: "ResistantVirus \<Rightarrow> pyval list \<Rightarrow> bool \<Rightarrow> py_error + bool" where
  "reproduce_gate self [] resist = Inr resist"
| "reproduce_gate self (drug # rest) resist =
     (if \<not> length (resistances self) = 0
      then (case dict_getitem (resistances self) drug of
              Inl e \<Rightarrow> Inl e
            | Inr b \<Rightarrow>
                if \<not> b then reproduce_gate self rest False
                else (case dict_contains (resistances self) drug of
                        Inl e \<Rightarrow> Inl e
                      | Inr c \<Rightarrow>
                          if \<not> c then reproduce_gate self rest False
                          else reproduce_gate self rest resist))
      else reproduce_gate self rest resist)"

text \<open>The mutation loop, over the keys of \<open>self.resistances\<close> in order; the draw comes
  before the subscript.\<close>

fun mutate_loop ::
  "string list \<Rightarrow> ResistantVirus \<Rightarrow> dict \<Rightarrow> world \<Rightarrow> (py_error + dict) \<times> world" where
  "mutate_loop [] self newResistances w = (Inr newResistances, w)"
| "mutate_loop (drug # rest) self newResistances w =
     (let (r, w1) = random_random w in
      if fl_sub 1 (mutProb self) \<ge> r
      then (case dict_getitem (resistances self) (Str drug) of
              Inl e \<Rightarrow> (Inl e, w1)
            | Inr b \<Rightarrow> mutate_loop rest self (AList.update drug b newResistances) w1)
      else (case dict_getitem (resistances self) (Str drug) of
              Inl e \<Rightarrow> (Inl e, w1)
            | Inr b \<Rightarrow> mutate_loop rest self (AList.update drug (\<not> b) newResistances) w1))"

definition ResistantVirus_reproduce ::
  "ResistantVirus \<Rightarrow> real \<Rightarrow> pyval list \<Rightarrow> world \<Rightarrow> (py_error + ResistantVirus) \<times> world" where
  "ResistantVirus_reproduce self popDensity' activeDrugs w =
     (case reproduce_gate self activeDrugs True of
        Inl e \<Rightarrow> (Inl e, w)
      | Inr resist \<Rightarrow>
          if resist
          then (case (if \<not> length (resistances self) = 0
                      then mutate_loop (map fst (resistances self)) self [] w
                      else (Inr [], w)) of
                  (Inl e, w1) \<Rightarrow> (Inl e, w1)
                | (Inr newResistances, w1) \<Rightarrow>
                    (let (r, w2) = random_random w1 in
                     if fl_mul (maxBirthProb self) (fl_sub 1 popDensity') \<ge> r
                     then (let (child, w3) =
                                 ResistantVirus_init (maxBirthProb self) (clearProb self)
                                   newResistances (mutProb self) w2
                           in (Inr child, w3))
                     else (Inl NoChildException, w2)))
          else (Inl NoChildException, w))"

section \<open>TreatedPatient\<close>

text \<open>\<open>prescription\<close> is the constructor's argument, stored as given;
  \<open>Prescriptions\<close> is the list of drugs being administered, empty at construction.
  \<open>resistantViruses\<close> is the counter that \<^verbatim>\<open>getResistPop\<close> keeps on the object.\<close>

record TreatedPatient = "ResistantVirus Patient" +
  prescription :: "pyval list"
  Prescriptions :: "pyval list"
  resistantViruses :: nat

definition TreatedPatient_init ::
  "ResistantVirus list \<Rightarrow> int \<Rightarrow> pyval list \<Rightarrow> TreatedPatient" where
  "TreatedPatient_init vs m pr =
     \<lparr>viruses = vs, maxPop = m, survivorViruses = [], newViruses = [], popDensity = 0,
      prescription = pr, Prescriptions = [], resistantViruses = 0\<rparr>"

text \<open>\<^verbatim>\<open>for d in newDrugs: if not newDrugs in self.Prescriptions:
  self.Prescriptions.append(newDrugs)\<close>: the body never mentions \<^verbatim>\<open>d\<close>.\<close>

fun addPrescription_loop :: "pyval list \<Rightarrow> pyval \<Rightarrow> TreatedPatient \<Rightarrow> TreatedPatient" where
  "addPrescription_loop [] newDrugs self = self"
| "addPrescription_loop (d # rest) newDrugs self =
     (if \<not> newDrugs \<in> set (Prescriptions self)
      then addPrescription_loop rest newDrugs
             (self\<lparr>Prescriptions := Prescriptions self @ [newDrugs]\<rparr>)
      else addPrescription_loop rest newDrugs self)"

definition addPrescription :: "pyval \<Rightarrow> TreatedPatient \<Rightarrow> TreatedPatient" where
  "addPrescription newDrugs self = addPrescription_loop (py_iter newDrugs) newDrugs self"

definition getPrescriptions :: "TreatedPatient \<Rightarrow> pyval list" where
  "getPrescriptions self = Prescriptions self"

text \<open>The inner loop of \<^verbatim>\<open>getResistPop\<close>; \<^verbatim>\<open>not x\<close> tests the truth value of
  what \<^verbatim>\<open>isResistantTo\<close> returned.\<close>

fun resists_loop :: "ResistantVirus \<Rightarrow> pyval list \<Rightarrow> bool \<Rightarrow> py_error + bool" where
  "resists_loop i [] resists = Inr resists"
| "resists_loop i (d # rest) resists =
     (case isResistantTo i d of
        Inl e \<Rightarrow> Inl e
      | Inr r \<Rightarrow> if \<not> truthy r then resists_loop i rest False
                 else resists_loop i rest resists)"

fun getResistPop_loop ::
  "ResistantVirus list \<Rightarrow> pyval list \<Rightarrow> TreatedPatient \<Rightarrow> py_error + TreatedPatient" where
  "getResistPop_loop [] drugResist self = Inr self"
| "getResistPop_loop (i # rest) drugResist self =
     (case resists_loop i drugResist True of
        Inl e \<Rightarrow> Inl e
      | Inr resists \<Rightarrow>
          if resists
          then getResistPop_loop rest drugResist
                 (self\<lparr>resistantViruses := resistantViruses self + 1\<rparr>)
          else getResistPop_loop rest drugResist self)"

definition getResistPop ::
  "pyval list \<Rightarrow> TreatedPatient \<Rightarrow> py_error + (nat \<times> TreatedPatient)" where
  "getResistPop drugResist self =
     (case getResistPop_loop (viruses self) drugResist (self\<lparr>resistantViruses := 0\<rparr>) of
        Inl e \<Rightarrow> Inl e
      | Inr self1 \<Rightarrow> Inr (resistantViruses self1, self1))"

text \<open>The loop over \<^verbatim>\<open>self.Prescriptions\<close> inside \<^verbatim>\<open>TreatedPatient.update\<close>; it
  stands before the \<^verbatim>\<open>try\<close>.\<close>

fun update_gate :: "ResistantVirus \<Rightarrow> pyval list \<Rightarrow> bool \<Rightarrow> py_error + bool" where
  "update_gate i [] reproductiv = Inr reproductiv"
| "update_gate i (d # rest) reproductiv =
     (if \<not> length (resistances i) = 0
      then (case dict_getitem (resistances i) d of
              Inl e \<Rightarrow> Inl e
            | Inr b \<Rightarrow> if \<not> b then update_gate i rest False
                       else update_gate i rest reproductiv)
      else update_gate i rest reproductiv)"

text \<open>The second loop of \<^verbatim>\<open>TreatedPatient.update\<close>. Both \<^verbatim>\<open>except\<close> clauses name
  \<open>NoChildException\<close>; the statement under \<^verbatim>\<open>if pot:\<close> appends \<^verbatim>\<open>pot\<close>.\<close>

fun TreatedPatient_reproduce_loop ::
  "ResistantVirus list \<Rightarrow> TreatedPatient \<Rightarrow> world \<Rightarrow> py_error + (TreatedPatient \<times> world)" where
  "TreatedPatient_reproduce_loop [] self w = Inr (self, w)"
| "TreatedPatient_reproduce_loop (i # rest) self w =
     (case update_gate i (Prescriptions self) True of
        Inl e \<Rightarrow> Inl e
      | Inr reproductiv \<Rightarrow>
          if reproductiv \<or> length (resistances i) = 0
          then (case ResistantVirus_reproduce i (popDensity self) (Prescriptions self) w of
                  (Inr pot, w1) \<Rightarrow>
                    TreatedPatient_reproduce_loop rest
                      (self\<lparr>newViruses := newViruses self @ [pot]\<rparr>) w1
                | (Inl NoChildException, w1) \<Rightarrow> TreatedPatient_reproduce_loop rest self w1
                | (Inl e, w1) \<Rightarrow> Inl e)
          else TreatedPatient_reproduce_loop rest self w)"

definition TreatedPatient_update ::
  "TreatedPatient \<Rightarrow> world \<Rightarrow> py_error + (nat \<times> TreatedPatient \<times> world)" where
  "TreatedPatient_update self w =
     (let self1 = self\<lparr>survivorViruses := [], newViruses := []\<rparr>;
          (self2, w1) = clear_loop (viruses self1) self1 w
      in if maxPop self2 = 0 then Inl ZeroDivisionError
         else
           (let self3 = self2\<lparr>popDensity :=
                  fl_div (real (length (survivorViruses self2))) (real_of_int (maxPop self2))\<rparr>
            in case TreatedPatient_reproduce_loop (survivorViruses self3) self3 w1 of
                 Inl e \<Rightarrow> Inl e
               | Inr (self4, w2) \<Rightarrow>
                   (let self5 = self4\<lparr>viruses := survivorViruses self4 @ newViruses self4\<rparr>
                    in Inr (length (viruses self5), self5, w2))))"

section \<open>The treated trial driver\<close>

text \<open>
  \<^verbatim>\<open>if len(ys) == i: ys.append(x) else: ys[i] = ys[i] + x\<close>, the statement that
  \<^verbatim>\<open>simulationWithDrug\<close> writes four times. For the population series \<^verbatim>\<open>x\<close> is
  \<^verbatim>\<open>p.getTotalPop()\<close>; for the resistant series it is \<^verbatim>\<open>p.getResistPop(...)\<close>,
  whose argument differs between the two phases and is the first parameter here.
\<close>

definition accumulate :: "nat list \<Rightarrow> nat \<Rightarrow> nat \<Rightarrow> py_error + nat list" where
  "accumulate ys i x =
     (if length ys = i then Inr (ys @ [x])
      else if i < length ys then Inr (ys[i := ys ! i + x])
      else Inl IndexError)"

definition accumulate_resist ::
  "pyval list \<Rightarrow> nat list \<Rightarrow> nat \<Rightarrow> TreatedPatient \<Rightarrow> py_error + (nat list \<times> TreatedPatient)" where
  "accumulate_resist drugResist ys i p =
     (if length ys = i
      then (case getResistPop drugResist p of
              Inl e \<Rightarrow> Inl e
            | Inr (x, p1) \<Rightarrow> Inr (ys @ [x], p1))
      else if i < length ys
      then (case getResistPop drugResist p of
              Inl e \<Rightarrow> Inl e
            | Inr (x, p1) \<Rightarrow> Inr (ys[i := ys ! i + x], p1))
      else Inl IndexError)"

text \<open>The first \<^verbatim>\<open>for i in range(150)\<close>: the resistant population is counted with
  \<^verbatim>\<open>p.getResistPop(patient.getPrescriptions())\<close>, where \<^verbatim>\<open>patient\<close> is the
  function's argument.\<close>

fun first_phase ::
  "nat list \<Rightarrow> TreatedPatient \<Rightarrow> TreatedPatient \<Rightarrow> nat list \<Rightarrow> nat list \<Rightarrow> world
     \<Rightarrow> py_error + (TreatedPatient \<times> nat list \<times> nat list \<times> world)" where
  "first_phase [] patient p yValues yDrugValues w = Inr (p, yValues, yDrugValues, w)"
| "first_phase (i # rest) patient p yValues yDrugValues w =
     (case TreatedPatient_update p w of
        Inl e \<Rightarrow> Inl e
      | Inr (n, p1, w1) \<Rightarrow>
          (case accumulate yValues i (getTotalPop p1) of
             Inl e \<Rightarrow> Inl e
           | Inr yValues1 \<Rightarrow>
               (case accumulate_resist (getPrescriptions patient) yDrugValues i p1 of
                  Inl e \<Rightarrow> Inl e
                | Inr (yDrugValues1, p2) \<Rightarrow>
                    first_phase rest patient p2 yValues1 yDrugValues1 w1)))"

text \<open>The second \<^verbatim>\<open>for i in range(150)\<close>: the index is \<^verbatim>\<open>i+150\<close> and the resistant
  population is counted with \<^verbatim>\<open>p.getResistPop(p.getPrescriptions())\<close>.\<close>

fun second_phase ::
  "nat list \<Rightarrow> TreatedPatient \<Rightarrow> nat list \<Rightarrow> nat list \<Rightarrow> world
     \<Rightarrow> py_error + (TreatedPatient \<times> nat list \<times> nat list \<times> world)" where
  "second_phase [] p yValues yDrugValues w = Inr (p, yValues, yDrugValues, w)"
| "second_phase (i # rest) p yValues yDrugValues w =
     (case TreatedPatient_update p w of
        Inl e \<Rightarrow> Inl e
      | Inr (n, p1, w1) \<Rightarrow>
          (case accumulate yValues (i + 150) (getTotalPop p1) of
             Inl e \<Rightarrow> Inl e
           | Inr yValues1 \<Rightarrow>
               (case accumulate_resist (getPrescriptions p1) yDrugValues (i + 150) p1 of
                  Inl e \<Rightarrow> Inl e
                | Inr (yDrugValues1, p2) \<Rightarrow>
                    second_phase rest p2 yValues1 yDrugValues1 w1)))"

text \<open>One pass of \<^verbatim>\<open>for t in range(numTrials)\<close>: a fresh
  \<^verbatim>\<open>TreatedPatient(patient.viruses, patient.maxPop, [])\<close>, the first phase,
  \<^verbatim>\<open>for d in patient.prescription: p.addPrescription(d)\<close>, the second phase.\<close>

fun trials_loop ::
  "nat list \<Rightarrow> TreatedPatient \<Rightarrow> nat list \<Rightarrow> nat list \<Rightarrow> world
     \<Rightarrow> py_error + (nat list \<times> nat list \<times> world)" where
  "trials_loop [] patient yValues yDrugValues w = Inr (yValues, yDrugValues, w)"
| "trials_loop (t # rest) patient yValues yDrugValues w =
     (let p = TreatedPatient_init (viruses patient) (maxPop patient) [] in
      case first_phase [0..<150] patient p yValues yDrugValues w of
        Inl e \<Rightarrow> Inl e
      | Inr (p1, yValues1, yDrugValues1, w1) \<Rightarrow>
          (let p2 = fold addPrescription (prescription patient) p1 in
           case second_phase [0..<150] p2 yValues1 yDrugValues1 w1 of
             Inl e \<Rightarrow> Inl e
           | Inr (p3, yValues2, yDrugValues2, w2) \<Rightarrow>
               trials_loop rest patient yValues2 yDrugValues2 w2))"

text \<open>
  \<^verbatim>\<open>simulationWithDrug\<close> up to the two series it hands to the plotting library: the
  averaged total population and the averaged resistant population. The list
  \<^verbatim>\<open>listViruses\<close> that the function fills from \<^verbatim>\<open>virus\<close> is never read. The final
  division runs once per element, so it divides only when a trial has run.
\<close>

definition simulationWithDrug ::
  "ResistantVirus \<Rightarrow> TreatedPatient \<Rightarrow> int \<Rightarrow> world
     \<Rightarrow> py_error + (real list \<times> real list \<times> world)" where
  "simulationWithDrug virus patient numTrials w =
     (case trials_loop [0..<nat numTrials] patient [] [] w of
        Inl e \<Rightarrow> Inl e
      | Inr (yValues, yDrugValues, w1) \<Rightarrow>
          Inr (map (\<lambda>y. fl_div (real y) (real_of_int numTrials)) yValues,
               map (\<lambda>e. fl_div (real e) (real_of_int numTrials)) yDrugValues, w1))"

section \<open>The update step in the specification's words\<close>

text \<open>
  The specification describes one update as: partition the live particles into survivors
  and cleared by independent \<^verbatim>\<open>doesClear\<close> draws; compute one density from the survivor
  count; let every survivor attempt to reproduce at that density. The definitions of this
  section follow that wording and are what the loops above are compared with.

  \<open>clear_draws\<close> pairs each particle with the random value its \<^verbatim>\<open>doesClear\<close> call
  receives, \<open>survivors_of\<close> keeps those whose draw does not clear them, and
  \<open>cleared_of\<close> the others.
\<close>

definition clear_draws :: "'v list \<Rightarrow> world \<Rightarrow> ('v \<times> real) list" where
  "clear_draws vs w = zip vs (map (rng w) [pos w..<pos w + length vs])"

definition survivors_of :: "'a SimpleVirus_scheme list \<Rightarrow> world \<Rightarrow> 'a SimpleVirus_scheme list" where
  "survivors_of vs w = map fst (filter (\<lambda>(v, r). \<not> clearProb v \<ge> r) (clear_draws vs w))"

definition cleared_of :: "'a SimpleVirus_scheme list \<Rightarrow> world \<Rightarrow> 'a SimpleVirus_scheme list" where
  "cleared_of vs w = map fst (filter (\<lambda>(v, r). clearProb v \<ge> r) (clear_draws vs w))"

text \<open>
  \<open>births_at dens vs w\<close>: every particle of \<open>vs\<close> in turn calls
  \<^verbatim>\<open>reproduce(dens)\<close> with the one value \<open>dens\<close>; the result lists each success as
  the pair of the parent and the offspring returned to it.
\<close>

fun births_at ::
  "real \<Rightarrow> SimpleVirus list \<Rightarrow> world \<Rightarrow> (SimpleVirus \<times> SimpleVirus) list \<times> world" where
  "births_at dens [] w = ([], w)"
| "births_at dens (i # rest) w =
     (case SimpleVirus_reproduce i dens w of
        (Inr pot, w1) \<Rightarrow> (let (bs, w2) = births_at dens rest w1 in ((i, pot) # bs, w2))
      | (Inl e, w1) \<Rightarrow> births_at dens rest w1)"

text \<open>
  The same for the treated container, with the list of active drugs \<open>drugs\<close> fixed for
  the step: a survivor attempts \<^verbatim>\<open>reproduce(dens, drugs)\<close> when the container's own
  check lets it; an exception other than \<open>NoChildException\<close> ends the step.
\<close>

fun treated_births_at ::
  "real \<Rightarrow> pyval list \<Rightarrow> ResistantVirus list \<Rightarrow> world
     \<Rightarrow> py_error + ((ResistantVirus \<times> ResistantVirus) list \<times> world)" where
  "treated_births_at dens drugs [] w = Inr ([], w)"
| "treated_births_at dens drugs (i # rest) w =
     (case update_gate i drugs True of
        Inl e \<Rightarrow> Inl e
      | Inr reproductiv \<Rightarrow>
          if reproductiv \<or> length (resistances i) = 0
          then (case ResistantVirus_reproduce i dens drugs w of
                  (Inr pot, w1) \<Rightarrow>
                    (case treated_births_at dens drugs rest w1 of
                       Inl e \<Rightarrow> Inl e
                     | Inr (bs, w2) \<Rightarrow> Inr ((i, pot) # bs, w2))
                | (Inl NoChildException, w1) \<Rightarrow> treated_births_at dens drugs rest w1
                | (Inl e, w1) \<Rightarrow> Inl e)
          else treated_births_at dens drugs rest w)"

text \<open>
  \<open>well_keyed drugs v\<close>: the resistance map of \<open>v\<close> is empty, or every active drug is
  a string that the map has as a key. This is the state in which the command-line front
  end starts a simulation: it stores \<open>False\<close> in the seed particle's map for every
  prescribed drug the particle has no entry for.
\<close>

definition well_keyed :: "pyval list \<Rightarrow> ResistantVirus \<Rightarrow> bool" where
  "well_keyed drugs v =
     (resistances v = [] \<or>
      list_all (\<lambda>d. case d of Str s \<Rightarrow> map_of (resistances v) s \<noteq> None | Lst xs \<Rightarrow> False) drugs)"

section \<open>Facts about rounding\<close>

text \<open>Rounding keeps the sign, leaves zero and every double as it is, and takes a
  result below half of the smallest subnormal number to zero.\<close>

lemma round64_zero: "round64 0 = 0"
  by (simp add: round64_def)

lemma rne_of_int: "rne (of_int n) = n"
  by (simp add: rne_def)

lemma rne_nonpos: "y \<le> 0 \<Longrightarrow> rne y \<le> 0"
proof -
  assume y: "y \<le> 0"
  have f: "\<lfloor>y\<rfloor> \<le> 0" using y by (simp add: floor_le_zero)
  have up: "rne y \<le> \<lfloor>y\<rfloor> + 1" by (simp add: rne_def Let_def)
  show ?thesis
  proof (cases "\<lfloor>y\<rfloor> = 0")
    case True
    have "of_int \<lfloor>y\<rfloor> \<le> y" by (rule of_int_floor_le)
    with True y have "y = 0" by simp
    then show ?thesis by (simp add: rne_def)
  next
    case False
    with f have "\<lfloor>y\<rfloor> + 1 \<le> 0" by linarith
    with up show ?thesis by linarith
  qed
qed

lemma rne_nonneg: "0 \<le> y \<Longrightarrow> 0 \<le> rne y"
  by (simp add: rne_def Let_def)

lemma round64_nonpos: "x \<le> 0 \<Longrightarrow> round64 x \<le> 0"
proof -
  assume x: "x \<le> 0"
  have "q * of_int (rne (x / q)) \<le> 0" if "0 < q" for q :: real
  proof -
    have "x / q \<le> 0" using x that by (simp add: divide_nonpos_pos)
    then have "rne (x / q) \<le> 0" by (rule rne_nonpos)
    then have "(of_int (rne (x / q)) :: real) \<le> 0" by simp
    with that show ?thesis by (simp add: mult_nonneg_nonpos)
  qed
  then show ?thesis by (simp add: round64_def Let_def)
qed

lemma round64_nonneg: "0 \<le> x \<Longrightarrow> 0 \<le> round64 x"
  by (simp add: round64_def Let_def rne_nonneg)

lemma round64_dyadic:
  assumes m: "\<bar>m\<bar> < 2 ^ 53" and n: "n \<le> 1074"
  shows "round64 (of_int m / 2 ^ n) = of_int m / 2 ^ n"
proof (cases "m = 0")
  case True
  then show ?thesis by (simp add: round64_def)
next
  case False
  let ?x = "of_int m / 2 ^ n :: real"
  have x0: "?x \<noteq> 0" using False by simp
  have absx: "\<bar>?x\<bar> = of_int \<bar>m\<bar> / 2 ^ n" by (simp add: abs_divide)
  have pos: "0 < \<bar>?x\<bar>" using x0 by simp
  have "\<bar>?x\<bar> < 2 ^ 53 / 2 ^ n"
  proof -
    have "(of_int \<bar>m\<bar> :: real) < 2 ^ 53" using m by (metis of_int_less_numeral_power_cancel_iff)
    then show ?thesis unfolding absx by (simp add: divide_strict_right_mono)
  qed
  also have "\<dots> = 2 powr (53 - real n)"
    by (simp add: powr_diff powr_realpow)
  finally have lt: "\<bar>?x\<bar> < 2 powr (53 - real n)" .
  have "log 2 \<bar>?x\<bar> < 53 - real n"
    using lt pos by (simp add: log_less_iff)
  then have fl: "\<lfloor>log 2 \<bar>?x\<bar>\<rfloor> \<le> 52 - int n"
    by (simp add: floor_le_iff) 
  define e where "e = max \<lfloor>log 2 \<bar>?x\<bar>\<rfloor> (- 1022)"
  have e: "e - 52 \<le> - int n" using fl n by (simp add: e_def)
  define j where "j = nat (- int n - (e - 52))"
  have j: "int j = - int n - (e - 52)" using e by (simp add: j_def)
  have q: "(2::real) powr of_int (e - 52) = (1 / 2 ^ n) / 2 ^ j"
  proof -
    have "e - 52 = - int n - int j" using j by simp
    then have "(2::real) powr of_int (e - 52) = 2 powr (- real n - real j)" by simp
    also have "\<dots> = (1 / 2 ^ n) / 2 ^ j"
      by (simp add: powr_diff powr_minus powr_realpow divide_simps)
    finally show ?thesis .
  qed
  have quot: "?x / 2 powr of_int (e - 52) = of_int (m * 2 ^ j)"
    unfolding q by (simp add: field_simps)
  have "round64 ?x = 2 powr of_int (e - 52) * of_int (rne (?x / 2 powr of_int (e - 52)))"
    using x0 by (simp add: round64_def Let_def e_def)
  also have "\<dots> = 2 powr of_int (e - 52) * of_int (m * 2 ^ j)"
    unfolding quot rne_of_int ..
  also have "\<dots> = ?x"
    unfolding q by (simp add: field_simps)
  finally show ?thesis .
qed

lemma round64_one: "round64 1 = 1"
  using round64_dyadic [of 1 0] by simp

lemma round64_minus_one: "round64 (- 1) = - 1"
  using round64_dyadic [of "- 1" 0] by simp

lemma round64_half: "round64 (1/2) = 1/2"
  using round64_dyadic [of 1 1] by simp

lemma round64_eighth: "round64 (1/8) = 1/8"
  using round64_dyadic [of 1 3] by simp

lemma round64_seven_eighths: "round64 (7/8) = 7/8"
  using round64_dyadic [of 7 3] by simp

lemma rne_minus_half: "rne (- (1/2)) = 0"
proof -
  have "\<lfloor>- (1/2) :: real\<rfloor> = - 1" by (simp add: floor_eq_iff)
  then show ?thesis by (simp add: rne_def Let_def)
qed

lemma round64_underflow: "round64 (- (1 / 2 ^ 1075)) = 0"
proof -
  let ?x = "- (1 / 2 ^ 1075) :: real"
  have ax: "\<bar>?x\<bar> = 2 powr (- 1075)"
    by (simp add: powr_minus inverse_eq_divide del: power_numeral)
  have "log 2 \<bar>?x\<bar> = - 1075"
    unfolding ax by simp
  then have e: "max \<lfloor>log 2 \<bar>?x\<bar>\<rfloor> (- 1022) = - 1022" by simp
  have q: "(2::real) powr of_int (- 1022 - 52) = 1 / 2 ^ 1074"
    by (simp add: powr_minus inverse_eq_divide del: power_numeral)
  have "(2::real) ^ 1075 = 2 * 2 ^ 1074"
    using power_Suc [of "2::real" 1074] by (simp del: power_numeral power_Suc)
  then have quot: "?x / (1 / 2 ^ 1074) = - (1/2)"
    by (simp del: power_numeral)
  have x0: "?x \<noteq> 0" by (simp del: power_numeral)
  have "round64 ?x = (1 / 2 ^ 1074) * of_int (rne (?x / (1 / 2 ^ 1074)))"
    unfolding round64_def Let_def e q using x0 by (simp del: power_numeral)
  also have "\<dots> = 0" unfolding quot rne_minus_half by simp
  finally show ?thesis .
qed

section \<open>Particles: reproduction and resistance\<close>

subsection \<open>Auxiliary facts about \<^verbatim>\<open>ResistantVirus.reproduce\<close>\<close>

lemma dict_getitem_key:
  "k \<in> fst ` set d \<Longrightarrow> \<exists>b. dict_getitem d (Str k) = Inr b"
  by (cases "map_of d k") (auto simp: dict_getitem_def map_of_eq_None_iff)

lemma mutate_loop_keys:
  "set ks \<subseteq> fst ` set (resistances v) \<Longrightarrow>
     \<exists>nr. mutate_loop ks v acc w = (Inr nr, w\<lparr>pos := pos w + length ks\<rparr>)"
proof (induction ks arbitrary: acc w)
  case Nil
  then show ?case by simp
next
  case (Cons k ks)
  from Cons.prems obtain b where b: "dict_getitem (resistances v) (Str k) = Inr b"
    using dict_getitem_key by fastforce
  from Cons.prems have sub: "set ks \<subseteq> fst ` set (resistances v)" by simp
  show ?case
    using Cons.IH [OF sub, of "AList.update k b acc" "w\<lparr>pos := pos w + 1\<rparr>"]
          Cons.IH [OF sub, of "AList.update k (\<not> b) acc" "w\<lparr>pos := pos w + 1\<rparr>"]
    by (auto simp: random_random_def b)
qed

lemma mutation_step:
  "\<exists>nr. (if \<not> length (resistances v) = 0
          then mutate_loop (map fst (resistances v)) v [] w
          else (Inr [], w)) = (Inr nr, w\<lparr>pos := pos w + length (resistances v)\<rparr>)"
proof (cases "resistances v = []")
  case True
  then show ?thesis by simp
next
  case False
  then show ?thesis
    using mutate_loop_keys [of "map fst (resistances v)" v "[]" w] by simp
qed

lemma ResistantVirus_reproduce_gate_error:
  "reproduce_gate v ds True = Inl e \<Longrightarrow> ResistantVirus_reproduce v d ds w = (Inl e, w)"
  by (simp add: ResistantVirus_reproduce_def)

lemma ResistantVirus_reproduce_ineligible:
  "reproduce_gate v ds True = Inr False \<Longrightarrow>
     ResistantVirus_reproduce v d ds w = (Inl NoChildException, w)"
  by (simp add: ResistantVirus_reproduce_def)

lemma ResistantVirus_reproduce_eligible:
  assumes "reproduce_gate v ds True = Inr True"
  shows "\<exists>nr. ResistantVirus_reproduce v d ds w =
           (if fl_mul (maxBirthProb v) (fl_sub 1 d) \<ge> rng w (pos w + length (resistances v))
            then (Inr \<lparr>ident = nextId w, maxBirthProb = maxBirthProb v,
                       clearProb = clearProb v, resistances = nr, mutProb = mutProb v\<rparr>,
                  w\<lparr>pos := pos w + length (resistances v) + 1, nextId := nextId w + 1\<rparr>)
            else (Inl NoChildException, w\<lparr>pos := pos w + length (resistances v) + 1\<rparr>))"
proof -
  obtain nr where "(if \<not> length (resistances v) = 0
          then mutate_loop (map fst (resistances v)) v [] w
          else (Inr [], w)) = (Inr nr, w\<lparr>pos := pos w + length (resistances v)\<rparr>)"
    using mutation_step by blast
  with assms show ?thesis
    by (auto simp: ResistantVirus_reproduce_def random_random_def ResistantVirus_init_def
             simp del: mutate_loop.simps)
qed

subsection \<open>Reproduction at a density of one or more\<close>

text \<open>
  Claim C7, as the specification states it: for every \<open>popDensity \<ge> 1.0\<close> and every
  random draw, \<^verbatim>\<open>reproduce\<close> fails with \<open>NoChildException\<close> whatever
  \<open>maxBirthProb\<close> is. The comparison of the source is \<^verbatim>\<open>p >= random.random()\<close>, and
  \<^verbatim>\<open>random.random()\<close> ranges over \<open>[0, 1)\<close>, zero included. At density \<open>1\<close> the
  product \<open>p\<close> is \<open>0\<close>, and a draw of \<open>0\<close> passes the comparison: the first particle
  below reproduces at density \<open>1\<close>. Above density \<open>1\<close> a small \<open>maxBirthProb\<close>
  makes the product underflow to zero: the second particle has the smallest positive
  double, \<open>2^(-1074)\<close>, as its \<open>maxBirthProb\<close> and reproduces at density \<open>3/2\<close>.
\<close>

theorem reproduce_at_density_one_counterexample:
  "SimpleVirus_reproduce \<lparr>ident = 0, maxBirthProb = 1/2, clearProb = 0\<rparr> 1
       \<lparr>rng = (\<lambda>n. 0), pos = 0, nextId = 1\<rparr>
     = (Inr \<lparr>ident = 1, maxBirthProb = 1/2, clearProb = 0\<rparr>,
        \<lparr>rng = (\<lambda>n. 0), pos = 1, nextId = 2\<rparr>) \<and>
   SimpleVirus_reproduce \<lparr>ident = 0, maxBirthProb = 1 / 2 ^ 1074, clearProb = 0\<rparr> (3/2)
       \<lparr>rng = (\<lambda>n. 0), pos = 0, nextId = 1\<rparr>
     = (Inr \<lparr>ident = 1, maxBirthProb = 1 / 2 ^ 1074, clearProb = 0\<rparr>,
        \<lparr>rng = (\<lambda>n. 0), pos = 1, nextId = 2\<rparr>)"
proof -
  have sub: "fl_sub 1 (3/2) = - (1/2)"
    using round64_dyadic [of "- 1" 1] by (simp add: fl_sub_def)
  have "(2::real) ^ 1075 = 2 * 2 ^ 1074"
    using power_Suc [of "2::real" 1074] by (simp del: power_numeral power_Suc)
  then have "1 / 2 ^ 1074 * - (1/2) = - (1 / 2 ^ 1075 :: real)"
    by (simp del: power_numeral)
  then have mul: "fl_mul (1 / 2 ^ 1074) (- (1/2)) = 0"
    by (simp add: fl_mul_def round64_underflow del: power_numeral)
  have first: "SimpleVirus_reproduce \<lparr>ident = 0, maxBirthProb = 1/2, clearProb = 0\<rparr> 1
       \<lparr>rng = (\<lambda>n. 0), pos = 0, nextId = 1\<rparr>
     = (Inr \<lparr>ident = 1, maxBirthProb = 1/2, clearProb = 0\<rparr>,
        \<lparr>rng = (\<lambda>n. 0), pos = 1, nextId = 2\<rparr>)"
    by (simp add: SimpleVirus_reproduce_def random_random_def SimpleVirus_init_def
          fl_sub_def fl_mul_def round64_zero)
  have second: "SimpleVirus_reproduce
       \<lparr>ident = 0, maxBirthProb = 1 / 2 ^ 1074, clearProb = 0\<rparr> (3/2)
       \<lparr>rng = (\<lambda>n. 0), pos = 0, nextId = 1\<rparr>
     = (Inr \<lparr>ident = 1, maxBirthProb = 1 / 2 ^ 1074, clearProb = 0\<rparr>,
        \<lparr>rng = (\<lambda>n. 0), pos = 1, nextId = 2\<rparr>)"
    by (simp add: SimpleVirus_reproduce_def random_random_def SimpleVirus_init_def sub mul
             del: power_numeral)
  from first second show ?thesis by (rule conjI)
qed

text \<open>
  Claim C7, amended: for a density of at least \<open>1\<close>, a non-negative \<open>maxBirthProb\<close>
  and a draw that is not negative, \<^verbatim>\<open>reproduce\<close> returns no offspring unless the
  product \<open>maxBirthProb * (1 - popDensity)\<close>, as the machine computes it, is zero
  and the draw it is compared with is exactly \<open>0\<close>. \<^verbatim>\<open>SimpleVirus.reproduce\<close> then
  raises \<open>NoChildException\<close>, and so does \<^verbatim>\<open>ResistantVirus.reproduce\<close> whenever its
  loop over the active drugs runs to its end. The draw that decides is the one at the
  current position for a simple particle, and the one after the mutation draws for a
  resistant particle.
\<close>

theorem reproduce_fails_at_full_density:
  "(1 \<le> d \<and> 0 \<le> maxBirthProb sv \<and> 0 \<le> rng w (pos w) \<and>
    (fl_mul (maxBirthProb sv) (fl_sub 1 d) \<noteq> 0 \<or> rng w (pos w) \<noteq> 0) \<longrightarrow>
      fst (SimpleVirus_reproduce sv d w) = Inl NoChildException) \<and>
   (1 \<le> d \<and> 0 \<le> maxBirthProb rv \<and> 0 \<le> rng w (pos w + length (resistances rv)) \<and>
    (fl_mul (maxBirthProb rv) (fl_sub 1 d) \<noteq> 0 \<or>
     rng w (pos w + length (resistances rv)) \<noteq> 0) \<longrightarrow>
      (\<forall>pot. fst (ResistantVirus_reproduce rv d ds w) \<noteq> Inr pot) \<and>
      ((\<exists>resist. reproduce_gate rv ds True = Inr resist) \<longrightarrow>
         fst (ResistantVirus_reproduce rv d ds w) = Inl NoChildException))"
proof -
  have below: "\<not> fl_mul mb (fl_sub 1 d) \<ge> r"
    if "1 \<le> d" and "0 \<le> mb" and "0 \<le> r" and "fl_mul mb (fl_sub 1 d) \<noteq> 0 \<or> r \<noteq> 0"
    for mb r :: real
  proof -
    have "fl_sub 1 d \<le> 0"
      using that(1) by (simp add: fl_sub_def round64_nonpos)
    then have "mb * fl_sub 1 d \<le> 0"
      using that(2) by (simp add: mult_nonneg_nonpos)
    then have "fl_mul mb (fl_sub 1 d) \<le> 0"
      by (simp add: fl_mul_def round64_nonpos)
    with that(3,4) show ?thesis by linarith
  qed
  have simple: "fst (SimpleVirus_reproduce sv d w) = Inl NoChildException"
    if "1 \<le> d" and "0 \<le> maxBirthProb sv" and "0 \<le> rng w (pos w)"
      and "fl_mul (maxBirthProb sv) (fl_sub 1 d) \<noteq> 0 \<or> rng w (pos w) \<noteq> 0"
    using below [OF that] by (simp add: SimpleVirus_reproduce_def random_random_def)
  have resistant: "fst (ResistantVirus_reproduce rv d ds w) = Inl NoChildException"
    if "1 \<le> d" and "0 \<le> maxBirthProb rv" and "0 \<le> rng w (pos w + length (resistances rv))"
      and "fl_mul (maxBirthProb rv) (fl_sub 1 d) \<noteq> 0 \<or>
           rng w (pos w + length (resistances rv)) \<noteq> 0"
      and "reproduce_gate rv ds True = Inr resist" for resist
  proof (cases resist)
    case True
    with that(5) ResistantVirus_reproduce_eligible [of rv ds d w] below [OF that(1-4)]
    show ?thesis by auto
  next
    case False
    with that(5) show ?thesis by (simp add: ResistantVirus_reproduce_ineligible)
  qed
  have never: "fst (ResistantVirus_reproduce rv d ds w) \<noteq> Inr pot"
    if "1 \<le> d" and "0 \<le> maxBirthProb rv" and "0 \<le> rng w (pos w + length (resistances rv))"
      and "fl_mul (maxBirthProb rv) (fl_sub 1 d) \<noteq> 0 \<or>
           rng w (pos w + length (resistances rv)) \<noteq> 0" for pot
  proof (cases "reproduce_gate rv ds True")
    case (Inl e)
    then show ?thesis by (simp add: ResistantVirus_reproduce_gate_error)
  next
    case (Inr resist)
    then show ?thesis using resistant [OF that] by simp
  qed
  from simple resistant never show ?thesis by blast
qed

text \<open>The witness is at density \<open>2\<close> with every draw equal to \<open>0\<close>: the product is
  \<open>- 1\<close>, so the draw of \<open>0\<close> does not pass.\<close>

theorem reproduce_fails_at_full_density_witness:
  "(1::real) \<le> 2 \<and>
   fl_mul 1 (fl_sub 1 2) = - 1 \<and>
   fst (SimpleVirus_reproduce \<lparr>ident = 0, maxBirthProb = 1, clearProb = 0\<rparr> 2
          \<lparr>rng = (\<lambda>n. 0), pos = 0, nextId = 2\<rparr>) = Inl NoChildException \<and>
   reproduce_gate \<lparr>ident = 1, maxBirthProb = 1, clearProb = 0,
                   resistances = [(''a'', True)], mutProb = 0\<rparr> [Str ''a''] True = Inr True \<and>
   fst (ResistantVirus_reproduce
          \<lparr>ident = 1, maxBirthProb = 1, clearProb = 0, resistances = [(''a'', True)], mutProb = 0\<rparr>
          2 [Str ''a''] \<lparr>rng = (\<lambda>n. 0), pos = 0, nextId = 2\<rparr>) = Inl NoChildException"
  using reproduce_fails_at_full_density
    [of 2 "\<lparr>ident = 0, maxBirthProb = 1, clearProb = 0\<rparr>"
        "\<lparr>rng = (\<lambda>n. 0), pos = 0, nextId = 2\<rparr>"
        "\<lparr>ident = 1, maxBirthProb = 1, clearProb = 0, resistances = [(''a'', True)], mutProb = 0\<rparr>"
        "[Str ''a'']"]
  by (auto simp: dict_getitem_def dict_contains_def fl_sub_def fl_mul_def round64_minus_one)

subsection \<open>A particle with an empty resistance map\<close>

text \<open>
  Claim C4: a resistant particle whose resistance map is empty is ineligible against
  every non-empty list of active drugs, so \<^verbatim>\<open>reproduce\<close> always raises
  \<open>NoChildException\<close>. The docstring of the method says the same: a particle
  reproduces only if it is resistant to all the active drugs, and one that is resistant
  to one or no drug does not. The loop over \<open>activeDrugs\<close> in the source is guarded by
  \<^verbatim>\<open>if not len(self.getResistances()) == 0\<close>, so with an empty map it never clears
  \<^verbatim>\<open>resist\<close>. The particle below has an empty map and faces the active drug \<open>x\<close>:
  \<^verbatim>\<open>isResistantTo\<close> does not report it resistant, \<^verbatim>\<open>getResistPop\<close> counts no
  particle resistant to \<open>x\<close> in a population made of it, and yet its \<^verbatim>\<open>reproduce\<close>
  call returns an offspring, also from within \<^verbatim>\<open>TreatedPatient.update\<close>.
\<close>

theorem reproduce_empty_map_under_active_drug:
  "map_sum id truthy
     (isResistantTo \<lparr>ident = 0, maxBirthProb = 1, clearProb = 0, resistances = [], mutProb = 0\<rparr>
        (Str ''x'')) = Inr False \<and>
   map_sum id fst
     (getResistPop [Str ''x'']
        (TreatedPatient_init
           [\<lparr>ident = 0, maxBirthProb = 1, clearProb = 0, resistances = [], mutProb = 0\<rparr>] 8 []))
     = Inr 0 \<and>
   ResistantVirus_reproduce
       \<lparr>ident = 0, maxBirthProb = 1, clearProb = 0, resistances = [], mutProb = 0\<rparr>
       0 [Str ''x''] \<lparr>rng = (\<lambda>n. 1/2), pos = 0, nextId = 1\<rparr>
     = (Inr \<lparr>ident = 1, maxBirthProb = 1, clearProb = 0, resistances = [], mutProb = 0\<rparr>,
        \<lparr>rng = (\<lambda>n. 1/2), pos = 1, nextId = 2\<rparr>) \<and>
   map_sum id (\<lambda>(n, p, w). (n, viruses p, Prescriptions p))
     (TreatedPatient_update
        (addPrescription (Str ''x'')
           (TreatedPatient_init
              [\<lparr>ident = 0, maxBirthProb = 1, clearProb = 0, resistances = [], mutProb = 0\<rparr>]
              8 []))
        \<lparr>rng = (\<lambda>n. 1/2), pos = 0, nextId = 1\<rparr>)
     = Inr (2, [\<lparr>ident = 0, maxBirthProb = 1, clearProb = 0, resistances = [], mutProb = 0\<rparr>,
                \<lparr>ident = 1, maxBirthProb = 1, clearProb = 0, resistances = [], mutProb = 0\<rparr>],
            [Str ''x''])"
  by (simp add: isResistantTo_def dict_contains_def getResistPop_def TreatedPatient_init_def
        ResistantVirus_reproduce_def random_random_def ResistantVirus_init_def
        TreatedPatient_update_def addPrescription_def doesClear_def
        fl_sub_def fl_mul_def fl_div_def round64_zero round64_one round64_eighth
        round64_seven_eighths)

subsection \<open>Resistance to a drug the map does not mention\<close>

text \<open>
  Claim C5: for a drug absent from the resistance map, \<^verbatim>\<open>isResistantTo\<close> returns the
  Boolean \<open>False\<close>. The docstring of the method promises the same (\<^verbatim>\<open>True if this
  virus instance is resistant to the drug, False otherwise\<close>). The body has no
  \<^verbatim>\<open>else\<close> for \<^verbatim>\<open>if drug in self.resistances\<close>, so for an absent drug control
  falls off the end and the call returns \<^verbatim>\<open>None\<close>.
\<close>

theorem isResistantTo_absent_drug_returns_None:
  "isResistantTo \<lparr>ident = 0, maxBirthProb = 1, clearProb = 0,
                  resistances = [(''a'', True)], mutProb = 0\<rparr> (Str ''x'') = Inr RetNone \<and>
   isResistantTo \<lparr>ident = 0, maxBirthProb = 1, clearProb = 0,
                  resistances = [], mutProb = 0\<rparr> (Str ''x'') = Inr RetNone"
  by (simp add: isResistantTo_def dict_contains_def)

section \<open>The list of active drugs\<close>

lemma addPrescription_loop_eq:
  "addPrescription_loop ds x tp =
     (if ds = [] \<or> x \<in> set (Prescriptions tp) then tp
      else tp\<lparr>Prescriptions := Prescriptions tp @ [x]\<rparr>)"
  by (induction ds arbitrary: tp) auto

text \<open>
  Claim C6, as the specification states it: \<^verbatim>\<open>addPrescription\<close> takes a sequence of
  drugs and appends each drug of it that is not yet present as an element of its own.
  The body tests and appends the argument \<^verbatim>\<open>newDrugs\<close> itself, once: given the
  sequence of the two drugs \<open>a\<close> and \<open>b\<close>, the list of active drugs receives one
  element, the sequence.
\<close>

theorem addPrescription_sequence_counterexample:
  "Prescriptions (addPrescription (Lst [Str ''a'', Str ''b'']) (TreatedPatient_init [] 10 []))
     = [Lst [Str ''a'', Str ''b'']] \<and>
   Prescriptions (addPrescription (Lst [Str ''a'', Str ''b'']) (TreatedPatient_init [] 10 []))
     \<noteq> [Str ''a'', Str ''b'']"
  by (simp add: addPrescription_def TreatedPatient_init_def)

text \<open>
  Claim C6, amended: \<^verbatim>\<open>addPrescription\<close> takes one drug name, as its docstring says
  and as the driver calls it. For a non-empty name it appends the name as one element
  when the list of active drugs does not hold it yet and changes nothing otherwise; so a
  repeated call leaves the container unchanged, and a list without duplicates stays
  without duplicates.
\<close>

theorem addPrescription_single_drug:
  assumes "s \<noteq> []"
  shows "addPrescription (Str s) tp =
           (if Str s \<in> set (Prescriptions tp) then tp
            else tp\<lparr>Prescriptions := Prescriptions tp @ [Str s]\<rparr>) \<and>
         addPrescription (Str s) (addPrescription (Str s) tp) = addPrescription (Str s) tp \<and>
         (distinct (Prescriptions tp) \<longrightarrow>
            distinct (Prescriptions (addPrescription (Str s) tp)))"
  using assms by (simp add: addPrescription_def addPrescription_loop_eq)

theorem addPrescription_single_drug_witness:
  "''ab'' \<noteq> [] \<and>
   distinct (Prescriptions (addPrescription (Str ''c'') (TreatedPatient_init [] 10 []))) \<and>
   Prescriptions (addPrescription (Str ''ab'')
                    (addPrescription (Str ''c'') (TreatedPatient_init [] 10 [])))
     = [Str ''c'', Str ''ab''] \<and>
   distinct (Prescriptions (addPrescription (Str ''ab'')
                    (addPrescription (Str ''c'') (TreatedPatient_init [] 10 []))))"
  using addPrescription_single_drug
    [of "''ab''" "addPrescription (Str ''c'') (TreatedPatient_init [] 10 [])"]
  by (simp add: addPrescription_def TreatedPatient_init_def)

section \<open>One update step\<close>

subsection \<open>The loops of \<^verbatim>\<open>update\<close> against the specification's wording\<close>

lemma clear_draws_Cons:
  "clear_draws (v # vs) w = (v, rng w (pos w)) # clear_draws vs (w\<lparr>pos := pos w + 1\<rparr>)"
proof -
  have "[pos w..<pos w + length (v # vs)] = pos w # [pos w + 1..<pos w + 1 + length vs]"
    by (simp add: upt_conv_Cons del: upt_Suc)
  then show ?thesis
    by (simp add: clear_draws_def del: upt_Suc)
qed

lemma clear_loop_eq:
  "clear_loop vs self w =
     (self\<lparr>survivorViruses := survivorViruses self @ survivors_of vs w\<rparr>,
      w\<lparr>pos := pos w + length vs\<rparr>)"
proof (induction vs arbitrary: self w)
  case Nil
  then show ?case by (simp add: survivors_of_def clear_draws_def)
next
  case (Cons v vs)
  then show ?case
    by (simp add: doesClear_def random_random_def survivors_of_def clear_draws_Cons)
qed

lemma partition_count:
  "length (survivors_of vs w) + length (cleared_of vs w) = length vs"
proof -
  let ?P = "\<lambda>(v, r). clearProb v \<ge> r"
  have neg: "(\<lambda>(v, r). \<not> clearProb v \<ge> r) = (\<lambda>x. \<not> ?P x)"
    by auto
  have "length (filter ?P (clear_draws vs w)) + length (filter (\<lambda>x. \<not> ?P x) (clear_draws vs w))
          = length (clear_draws vs w)"
    by (rule sum_length_filter_compl)
  moreover have "length (clear_draws vs w) = length vs"
    by (simp add: clear_draws_def)
  ultimately show ?thesis
    by (simp add: survivors_of_def cleared_of_def neg)
qed

lemma survivors_of_subset: "set (survivors_of vs w) \<subseteq> set vs"
  by (auto simp: survivors_of_def clear_draws_def dest: set_zip_leftD)

lemma SimpleVirus_reproduce_error:
  "SimpleVirus_reproduce i d w = (Inl e, w1) \<Longrightarrow> e = NoChildException"
  by (auto simp: SimpleVirus_reproduce_def random_random_def SimpleVirus_init_def split: if_splits)

lemma Patient_reproduce_loop_eq:
  "Patient_reproduce_loop vs self w =
     (case births_at (popDensity self) vs w of
        (bs, w') \<Rightarrow> Inr (self\<lparr>newViruses := newViruses self @ map fst bs\<rparr>, w'))"
proof (induction vs arbitrary: self w)
  case Nil
  then show ?case by simp
next
  case (Cons i vs)
  show ?case
  proof (cases "SimpleVirus_reproduce i (popDensity self) w")
    case (Pair r w1)
    show ?thesis
    proof (cases r)
      case (Inl e)
      with Pair have "e = NoChildException" by (simp add: SimpleVirus_reproduce_error)
      with Pair Inl show ?thesis by (simp add: Cons.IH)
    next
      case (Inr pot)
      with Pair show ?thesis by (simp add: Cons.IH split: prod.splits)
    qed
  qed
qed

lemma TreatedPatient_reproduce_loop_eq:
  "TreatedPatient_reproduce_loop vs self w =
     (case treated_births_at (popDensity self) (Prescriptions self) vs w of
        Inl e \<Rightarrow> Inl e
      | Inr (bs, w') \<Rightarrow> Inr (self\<lparr>newViruses := newViruses self @ map snd bs\<rparr>, w'))"
proof (induction vs arbitrary: self w)
  case Nil
  then show ?case by simp
next
  case (Cons i vs)
  show ?case
    by (simp add: Cons.IH split: sum.splits prod.splits py_error.splits)
qed

lemma Patient_update_eq:
  "Patient_update p w =
     (if maxPop p = 0 then Inl ZeroDivisionError
      else (let s = survivors_of (viruses p) w;
                dens = fl_div (real (length s)) (real_of_int (maxPop p))
            in case births_at dens s (w\<lparr>pos := pos w + length (viruses p)\<rparr>) of
                 (bs, w') \<Rightarrow>
                   Inr (length s + length bs,
                        p\<lparr>viruses := s @ map fst bs, survivorViruses := s,
                          newViruses := map fst bs, popDensity := dens\<rparr>, w')))"
  by (simp add: Patient_update_def clear_loop_eq Patient_reproduce_loop_eq Let_def split: prod.splits)

lemma TreatedPatient_update_eq:
  "TreatedPatient_update p w =
     (if maxPop p = 0 then Inl ZeroDivisionError
      else (let s = survivors_of (viruses p) w;
                dens = fl_div (real (length s)) (real_of_int (maxPop p))
            in case treated_births_at dens (Prescriptions p) s (w\<lparr>pos := pos w + length (viruses p)\<rparr>) of
                 Inl e \<Rightarrow> Inl e
               | Inr (bs, w') \<Rightarrow>
                   Inr (length s + length bs,
                        p\<lparr>viruses := s @ map snd bs, survivorViruses := s,
                          newViruses := map snd bs, popDensity := dens\<rparr>, w')))"
  by (simp add: TreatedPatient_update_def clear_loop_eq TreatedPatient_reproduce_loop_eq Let_def split: prod.splits sum.splits)

subsection \<open>When the treated update returns\<close>

text \<open>
  When every active drug is a key of every non-empty resistance map, the treated update
  raises nothing, provided \<open>maxPop\<close> is not zero.
\<close>

lemma well_keyed_getitem:
  "well_keyed ds v \<Longrightarrow> resistances v \<noteq> [] \<Longrightarrow> d \<in> set ds \<Longrightarrow>
     \<exists>b. dict_getitem (resistances v) d = Inr b \<and> dict_contains (resistances v) d = Inr True"
proof -
  assume wk: "well_keyed ds v" and ne: "resistances v \<noteq> []" and d: "d \<in> set ds"
  from wk ne d have "case d of Str s \<Rightarrow> map_of (resistances v) s \<noteq> None | Lst xs \<Rightarrow> False"
    by (simp add: well_keyed_def list_all_iff)
  then obtain s b where "d = Str s" and "map_of (resistances v) s = Some b"
    by (cases d) auto
  then show ?thesis
    by (simp add: dict_getitem_def dict_contains_def)
qed

lemma well_keyed_Cons: "well_keyed (d # ds) v \<Longrightarrow> well_keyed ds v"
  by (auto simp: well_keyed_def)

lemma update_gate_total:
  "well_keyed ds v \<Longrightarrow> \<exists>b. update_gate v ds r = Inr b"
proof (induction ds arbitrary: r)
  case Nil
  then show ?case by simp
next
  case (Cons d ds)
  then have wk: "well_keyed ds v" by (simp add: well_keyed_Cons)
  show ?case
  proof (cases "resistances v = []")
    case True
    then show ?thesis using Cons.IH [OF wk] by simp
  next
    case False
    with Cons.prems obtain b where "dict_getitem (resistances v) d = Inr b"
      using well_keyed_getitem [of "d # ds" v d] by auto
    with False show ?thesis using Cons.IH [OF wk] by simp
  qed
qed

lemma reproduce_gate_total:
  "well_keyed ds v \<Longrightarrow> \<exists>b. reproduce_gate v ds r = Inr b"
proof (induction ds arbitrary: r)
  case Nil
  then show ?case by simp
next
  case (Cons d ds)
  then have wk: "well_keyed ds v" by (simp add: well_keyed_Cons)
  show ?case
  proof (cases "resistances v = []")
    case True
    then show ?thesis using Cons.IH [OF wk] by simp
  next
    case False
    with Cons.prems obtain b where "dict_getitem (resistances v) d = Inr b"
       "dict_contains (resistances v) d = Inr True"
      using well_keyed_getitem [of "d # ds" v d] by auto
    with False show ?thesis using Cons.IH [OF wk] by simp
  qed
qed


lemma ResistantVirus_reproduce_well_keyed:
  assumes "well_keyed ds v"
  shows "(\<exists>pot w1. ResistantVirus_reproduce v d ds w = (Inr pot, w1)) \<or>
         (\<exists>w1. ResistantVirus_reproduce v d ds w = (Inl NoChildException, w1))"
proof -
  from assms obtain resist where g: "reproduce_gate v ds True = Inr resist"
    using reproduce_gate_total by blast
  show ?thesis
  proof (cases resist)
    case True
    with g ResistantVirus_reproduce_eligible [of v ds d w] show ?thesis
      by (auto split: if_splits)
  next
    case False
    with g show ?thesis by (simp add: ResistantVirus_reproduce_ineligible)
  qed
qed

lemma treated_births_total:
  "list_all (well_keyed ds) vs \<Longrightarrow> \<exists>bs w'. treated_births_at d ds vs w = Inr (bs, w')"
proof (induction vs arbitrary: w)
  case Nil
  then show ?case by simp
next
  case (Cons i vs)
  then have wk: "well_keyed ds i" and rest: "list_all (well_keyed ds) vs" by simp_all
  from wk obtain g where g: "update_gate i ds True = Inr g"
    using update_gate_total by blast
  show ?case
  proof (cases "g \<or> length (resistances i) = 0")
    case False
    with g Cons.IH [OF rest, of w] show ?thesis by simp
  next
    case True
    from ResistantVirus_reproduce_well_keyed [OF wk, of d w]
    show ?thesis
    proof
      assume "\<exists>pot w1. ResistantVirus_reproduce i d ds w = (Inr pot, w1)"
      then obtain pot w1 where r: "ResistantVirus_reproduce i d ds w = (Inr pot, w1)" by blast
      from Cons.IH [OF rest, of w1] obtain bs w' where "treated_births_at d ds vs w1 = Inr (bs, w')"
        by blast
      with g True r show ?thesis by simp
    next
      assume "\<exists>w1. ResistantVirus_reproduce i d ds w = (Inl NoChildException, w1)"
      then obtain w1 where r: "ResistantVirus_reproduce i d ds w = (Inl NoChildException, w1)"
        by blast
      with g True Cons.IH [OF rest, of w1] show ?thesis by simp
    qed
  qed
qed

lemma TreatedPatient_update_returns:
  assumes "maxPop tp \<noteq> 0" and "list_all (well_keyed (Prescriptions tp)) (viruses tp)"
  shows "\<exists>n tp' w'. TreatedPatient_update tp w = Inr (n, tp', w')"
proof -
  have "list_all (well_keyed (Prescriptions tp)) (survivors_of (viruses tp) w)"
    using assms(2) survivors_of_subset [of "viruses tp" w] by (auto simp: list_all_iff)
  then obtain bs w' where
    "treated_births_at (fl_div (real (length (survivors_of (viruses tp) w))) (real_of_int (maxPop tp)))
       (Prescriptions tp) (survivors_of (viruses tp) w)
       (w\<lparr>pos := pos w + length (viruses tp)\<rparr>) = Inr (bs, w')"
    using treated_births_total by blast
  with assms(1) show ?thesis
    by (simp add: TreatedPatient_update_eq Let_def)
qed

subsection \<open>Population accounting\<close>

text \<open>
  Claim C8: in every update step of either container the returned total is the number of
  survivors plus the number of offspring, and the survivors and the cleared particles
  together are the population before the step. The survivors are the particles whose
  \<^verbatim>\<open>doesClear\<close> draw did not clear them, the cleared ones are the others, and the
  offspring are counted by the successful \<^verbatim>\<open>reproduce\<close> calls. The base container
  returns whenever \<open>maxPop\<close> is not zero; the treated one returns when, moreover, every
  active drug is a key of every non-empty resistance map.
\<close>

theorem update_population_accounting:
  "(maxPop p \<noteq> 0 \<longrightarrow> (\<exists>n p' w'. Patient_update p w = Inr (n, p', w'))) \<and>
   (Patient_update p w = Inr (n, p', w') \<longrightarrow>
      n = length (survivorViruses p') + length (newViruses p') \<and>
      n = getTotalPop p' \<and>
      survivorViruses p' = survivors_of (viruses p) w \<and>
      length (newViruses p') =
        length (fst (births_at (popDensity p') (survivorViruses p')
                       (w\<lparr>pos := pos w + length (viruses p)\<rparr>))) \<and>
      length (survivorViruses p') + length (cleared_of (viruses p) w) = getTotalPop p) \<and>
   (maxPop tp \<noteq> 0 \<and> list_all (well_keyed (Prescriptions tp)) (viruses tp) \<longrightarrow>
      (\<exists>m tp' w''. TreatedPatient_update tp w = Inr (m, tp', w''))) \<and>
   (TreatedPatient_update tp w = Inr (m, tp', w'') \<longrightarrow>
      m = length (survivorViruses tp') + length (newViruses tp') \<and>
      m = getTotalPop tp' \<and>
      survivorViruses tp' = survivors_of (viruses tp) w \<and>
      (\<exists>bs. treated_births_at (popDensity tp') (Prescriptions tp) (survivorViruses tp')
               (w\<lparr>pos := pos w + length (viruses tp)\<rparr>) = Inr (bs, w'') \<and>
            length (newViruses tp') = length bs) \<and>
      length (survivorViruses tp') + length (cleared_of (viruses tp) w) = getTotalPop tp)"
proof -
  have total: "maxPop p \<noteq> 0 \<longrightarrow> (\<exists>n p' w'. Patient_update p w = Inr (n, p', w'))"
    by (simp add: Patient_update_eq Let_def split: prod.splits)
  have base: "Patient_update p w = Inr (n, p', w') \<longrightarrow>
      n = length (survivorViruses p') + length (newViruses p') \<and>
      n = getTotalPop p' \<and>
      survivorViruses p' = survivors_of (viruses p) w \<and>
      length (newViruses p') =
        length (fst (births_at (popDensity p') (survivorViruses p')
                       (w\<lparr>pos := pos w + length (viruses p)\<rparr>))) \<and>
      length (survivorViruses p') + length (cleared_of (viruses p) w) = getTotalPop p"
    using partition_count [of "viruses p" w]
    by (auto simp: Patient_update_eq Let_def getTotalPop_def split: if_splits prod.splits)
  have treated: "TreatedPatient_update tp w = Inr (m, tp', w'') \<longrightarrow>
      m = length (survivorViruses tp') + length (newViruses tp') \<and>
      m = getTotalPop tp' \<and>
      survivorViruses tp' = survivors_of (viruses tp) w \<and>
      (\<exists>bs. treated_births_at (popDensity tp') (Prescriptions tp) (survivorViruses tp')
               (w\<lparr>pos := pos w + length (viruses tp)\<rparr>) = Inr (bs, w'') \<and>
            length (newViruses tp') = length bs) \<and>
      length (survivorViruses tp') + length (cleared_of (viruses tp) w) = getTotalPop tp"
    using partition_count [of "viruses tp" w]
    by (auto simp: TreatedPatient_update_eq Let_def getTotalPop_def
             split: if_splits prod.splits sum.splits)
  have treated_total:
    "maxPop tp \<noteq> 0 \<and> list_all (well_keyed (Prescriptions tp)) (viruses tp) \<longrightarrow>
       (\<exists>m tp' w''. TreatedPatient_update tp w = Inr (m, tp', w''))"
    using TreatedPatient_update_returns [of tp w] by blast
  from total base treated_total treated show ?thesis by blast
qed

theorem update_population_accounting_witness:
  "Patient_update (Patient_init [\<lparr>ident = 0, maxBirthProb = 1, clearProb = 0\<rparr>,
                                 \<lparr>ident = 1, maxBirthProb = 1, clearProb = 1\<rparr>] 8)
       \<lparr>rng = (\<lambda>n. 1/2), pos = 0, nextId = 2\<rparr>
     = Inr (2, \<lparr>viruses = [\<lparr>ident = 0, maxBirthProb = 1, clearProb = 0\<rparr>,
                           \<lparr>ident = 0, maxBirthProb = 1, clearProb = 0\<rparr>],
               maxPop = 8,
               survivorViruses = [\<lparr>ident = 0, maxBirthProb = 1, clearProb = 0\<rparr>],
               newViruses = [\<lparr>ident = 0, maxBirthProb = 1, clearProb = 0\<rparr>],
               popDensity = 1/8\<rparr>,
            \<lparr>rng = (\<lambda>n. 1/2), pos = 3, nextId = 3\<rparr>) \<and>
   cleared_of [\<lparr>ident = 0, maxBirthProb = 1, clearProb = 0\<rparr>,
               \<lparr>ident = 1, maxBirthProb = 1, clearProb = 1\<rparr>]
       \<lparr>rng = (\<lambda>n. 1/2), pos = 0, nextId = 2\<rparr>
     = [\<lparr>ident = 1, maxBirthProb = 1, clearProb = 1\<rparr>] \<and>
   TreatedPatient_update
       (addPrescription (Str ''a'')
          (TreatedPatient_init
             [\<lparr>ident = 0, maxBirthProb = 1, clearProb = 0, resistances = [(''a'', True)], mutProb = 0\<rparr>,
              \<lparr>ident = 1, maxBirthProb = 1, clearProb = 1, resistances = [(''a'', True)], mutProb = 0\<rparr>]
             8 []))
       \<lparr>rng = (\<lambda>n. 1/2), pos = 0, nextId = 2\<rparr>
     = Inr (2, \<lparr>viruses = [\<lparr>ident = 0, maxBirthProb = 1, clearProb = 0,
                            resistances = [(''a'', True)], mutProb = 0\<rparr>,
                           \<lparr>ident = 2, maxBirthProb = 1, clearProb = 0,
                            resistances = [(''a'', True)], mutProb = 0\<rparr>],
               maxPop = 8,
               survivorViruses = [\<lparr>ident = 0, maxBirthProb = 1, clearProb = 0,
                                    resistances = [(''a'', True)], mutProb = 0\<rparr>],
               newViruses = [\<lparr>ident = 2, maxBirthProb = 1, clearProb = 0,
                               resistances = [(''a'', True)], mutProb = 0\<rparr>],
               popDensity = 1/8, prescription = [], Prescriptions = [Str ''a''],
               resistantViruses = 0\<rparr>,
            \<lparr>rng = (\<lambda>n. 1/2), pos = 4, nextId = 3\<rparr>)"
  using update_population_accounting
    [of "Patient_init [\<lparr>ident = 0, maxBirthProb = 1, clearProb = 0\<rparr>,
                       \<lparr>ident = 1, maxBirthProb = 1, clearProb = 1\<rparr>] 8"
        "\<lparr>rng = (\<lambda>n. 1/2), pos = 0, nextId = 2\<rparr>" _ _ _
        "addPrescription (Str ''a'')
          (TreatedPatient_init
             [\<lparr>ident = 0, maxBirthProb = 1, clearProb = 0, resistances = [(''a'', True)], mutProb = 0\<rparr>,
              \<lparr>ident = 1, maxBirthProb = 1, clearProb = 1, resistances = [(''a'', True)], mutProb = 0\<rparr>]
             8 [])"]
  by (simp add: Patient_update_def Patient_init_def doesClear_def random_random_def
        SimpleVirus_reproduce_def SimpleVirus_init_def cleared_of_def clear_draws_def
        upt_rec [of 0] upt_rec [of 1] upt_rec [of 2]
        TreatedPatient_update_def TreatedPatient_init_def addPrescription_def
        ResistantVirus_reproduce_def ResistantVirus_init_def dict_getitem_def
        dict_contains_def
        fl_sub_def fl_mul_def fl_div_def round64_one round64_eighth round64_seven_eighths)

subsection \<open>One density per step\<close>

text \<open>
  Claim C9: within one update call the density is the number of survivors after
  clearance divided by \<open>maxPop\<close>, and that one value is what every reproduction attempt
  of the step receives: the offspring list is what \<open>births_at\<close> (for the treated
  container \<open>treated_births_at\<close>) yields when it is given this density once, for all
  survivors. The loops of the source read \<^verbatim>\<open>self.popDensity\<close> anew in each pass while
  \<^verbatim>\<open>self.newViruses\<close> grows; the value they read does not move.
\<close>

theorem update_uses_one_density:
  "(Patient_update p w = Inr (n, p', w') \<longrightarrow>
      popDensity p' = fl_div (real (length (survivors_of (viruses p) w))) (real_of_int (maxPop p)) \<and>
      (\<exists>bs. births_at (fl_div (real (length (survivors_of (viruses p) w))) (real_of_int (maxPop p)))
               (survivors_of (viruses p) w) (w\<lparr>pos := pos w + length (viruses p)\<rparr>) = (bs, w') \<and>
            newViruses p' = map fst bs \<and>
            viruses p' = survivors_of (viruses p) w @ map fst bs)) \<and>
   (TreatedPatient_update tp w = Inr (m, tp', w'') \<longrightarrow>
      popDensity tp' = fl_div (real (length (survivors_of (viruses tp) w))) (real_of_int (maxPop tp)) \<and>
      (\<exists>bs. treated_births_at
               (fl_div (real (length (survivors_of (viruses tp) w))) (real_of_int (maxPop tp)))
               (Prescriptions tp) (survivors_of (viruses tp) w)
               (w\<lparr>pos := pos w + length (viruses tp)\<rparr>) = Inr (bs, w'') \<and>
            newViruses tp' = map snd bs \<and>
            viruses tp' = survivors_of (viruses tp) w @ map snd bs))"
proof -
  have base: "Patient_update p w = Inr (n, p', w') \<longrightarrow>
      popDensity p' = fl_div (real (length (survivors_of (viruses p) w))) (real_of_int (maxPop p)) \<and>
      (\<exists>bs. births_at (fl_div (real (length (survivors_of (viruses p) w))) (real_of_int (maxPop p)))
               (survivors_of (viruses p) w) (w\<lparr>pos := pos w + length (viruses p)\<rparr>) = (bs, w') \<and>
            newViruses p' = map fst bs \<and>
            viruses p' = survivors_of (viruses p) w @ map fst bs)"
    by (auto simp: Patient_update_eq Let_def split: if_splits prod.splits)
  have treated: "TreatedPatient_update tp w = Inr (m, tp', w'') \<longrightarrow>
      popDensity tp' = fl_div (real (length (survivors_of (viruses tp) w))) (real_of_int (maxPop tp)) \<and>
      (\<exists>bs. treated_births_at
               (fl_div (real (length (survivors_of (viruses tp) w))) (real_of_int (maxPop tp)))
               (Prescriptions tp) (survivors_of (viruses tp) w)
               (w\<lparr>pos := pos w + length (viruses tp)\<rparr>) = Inr (bs, w'') \<and>
            newViruses tp' = map snd bs \<and>
            viruses tp' = survivors_of (viruses tp) w @ map snd bs)"
    by (auto simp: TreatedPatient_update_eq Let_def split: if_splits prod.splits sum.splits)
  from base treated show ?thesis by blast
qed

theorem update_uses_one_density_witness:
  "Patient_update (Patient_init [\<lparr>ident = 0, maxBirthProb = 1, clearProb = 0\<rparr>,
                                 \<lparr>ident = 1, maxBirthProb = 1, clearProb = 0\<rparr>] 4)
       \<lparr>rng = (\<lambda>n. if n = 3 then 2/5 else 1/4), pos = 0, nextId = 2\<rparr>
     = Inr (4, \<lparr>viruses = [\<lparr>ident = 0, maxBirthProb = 1, clearProb = 0\<rparr>,
                           \<lparr>ident = 1, maxBirthProb = 1, clearProb = 0\<rparr>,
                           \<lparr>ident = 0, maxBirthProb = 1, clearProb = 0\<rparr>,
                           \<lparr>ident = 1, maxBirthProb = 1, clearProb = 0\<rparr>],
               maxPop = 4,
               survivorViruses = [\<lparr>ident = 0, maxBirthProb = 1, clearProb = 0\<rparr>,
                                   \<lparr>ident = 1, maxBirthProb = 1, clearProb = 0\<rparr>],
               newViruses = [\<lparr>ident = 0, maxBirthProb = 1, clearProb = 0\<rparr>,
                              \<lparr>ident = 1, maxBirthProb = 1, clearProb = 0\<rparr>],
               popDensity = 1/2\<rparr>,
            \<lparr>rng = (\<lambda>n. if n = 3 then 2/5 else 1/4), pos = 4, nextId = 4\<rparr>) \<and>
   TreatedPatient_update
       (TreatedPatient_init
          [\<lparr>ident = 0, maxBirthProb = 1, clearProb = 0, resistances = [], mutProb = 0\<rparr>,
           \<lparr>ident = 1, maxBirthProb = 1, clearProb = 0, resistances = [], mutProb = 0\<rparr>]
          4 [Str ''a''])
       \<lparr>rng = (\<lambda>n. if n = 3 then 2/5 else 1/4), pos = 0, nextId = 2\<rparr>
     = Inr (4, \<lparr>viruses = [\<lparr>ident = 0, maxBirthProb = 1, clearProb = 0,
                            resistances = [], mutProb = 0\<rparr>,
                           \<lparr>ident = 1, maxBirthProb = 1, clearProb = 0,
                            resistances = [], mutProb = 0\<rparr>,
                           \<lparr>ident = 2, maxBirthProb = 1, clearProb = 0,
                            resistances = [], mutProb = 0\<rparr>,
                           \<lparr>ident = 3, maxBirthProb = 1, clearProb = 0,
                            resistances = [], mutProb = 0\<rparr>],
               maxPop = 4,
               survivorViruses = [\<lparr>ident = 0, maxBirthProb = 1, clearProb = 0,
                                    resistances = [], mutProb = 0\<rparr>,
                                   \<lparr>ident = 1, maxBirthProb = 1, clearProb = 0,
                                    resistances = [], mutProb = 0\<rparr>],
               newViruses = [\<lparr>ident = 2, maxBirthProb = 1, clearProb = 0,
                               resistances = [], mutProb = 0\<rparr>,
                              \<lparr>ident = 3, maxBirthProb = 1, clearProb = 0,
                               resistances = [], mutProb = 0\<rparr>],
               popDensity = 1/2, prescription = [Str ''a''], Prescriptions = [],
               resistantViruses = 0\<rparr>,
            \<lparr>rng = (\<lambda>n. if n = 3 then 2/5 else 1/4), pos = 4, nextId = 4\<rparr>)"
  using update_uses_one_density
    [of "Patient_init [\<lparr>ident = 0, maxBirthProb = 1, clearProb = 0\<rparr>,
                       \<lparr>ident = 1, maxBirthProb = 1, clearProb = 0\<rparr>] 4"
        "\<lparr>rng = (\<lambda>n. if n = 3 then 2/5 else 1/4), pos = 0, nextId = 2\<rparr>" _ _ _
        "TreatedPatient_init
          [\<lparr>ident = 0, maxBirthProb = 1, clearProb = 0, resistances = [], mutProb = 0\<rparr>,
           \<lparr>ident = 1, maxBirthProb = 1, clearProb = 0, resistances = [], mutProb = 0\<rparr>]
          4 [Str ''a'']"]
  by (simp add: Patient_update_def Patient_init_def doesClear_def random_random_def
        SimpleVirus_reproduce_def SimpleVirus_init_def
        TreatedPatient_update_def TreatedPatient_init_def
        ResistantVirus_reproduce_def ResistantVirus_init_def
        fl_sub_def fl_mul_def fl_div_def round64_half)

subsection \<open>Which particle joins the population\<close>

text \<open>
  Claim C1: in both containers, when a survivor's \<^verbatim>\<open>reproduce\<close> call returns an
  offspring, the particle appended to the pending list is that offspring and not the
  parent. \<^verbatim>\<open>TreatedPatient.update\<close> appends \<^verbatim>\<open>pot\<close>; \<^verbatim>\<open>Patient.update\<close>
  appends \<^verbatim>\<open>i\<close>, the parent. Below, the one particle of a patient has identity \<open>0\<close>;
  it survives, its \<^verbatim>\<open>reproduce\<close> call returns a new particle of identity \<open>1\<close>, and
  the population after the step holds the particle of identity \<open>0\<close> twice.
\<close>

theorem Patient_update_appends_parent:
  "SimpleVirus_reproduce \<lparr>ident = 0, maxBirthProb = 1, clearProb = 0\<rparr> (1/8)
       \<lparr>rng = (\<lambda>n. 1/2), pos = 1, nextId = 1\<rparr>
     = (Inr \<lparr>ident = 1, maxBirthProb = 1, clearProb = 0\<rparr>,
        \<lparr>rng = (\<lambda>n. 1/2), pos = 2, nextId = 2\<rparr>) \<and>
   Patient_update (Patient_init [\<lparr>ident = 0, maxBirthProb = 1, clearProb = 0\<rparr>] 8)
       \<lparr>rng = (\<lambda>n. 1/2), pos = 0, nextId = 1\<rparr>
     = Inr (2, \<lparr>viruses = [\<lparr>ident = 0, maxBirthProb = 1, clearProb = 0\<rparr>,
                           \<lparr>ident = 0, maxBirthProb = 1, clearProb = 0\<rparr>],
               maxPop = 8,
               survivorViruses = [\<lparr>ident = 0, maxBirthProb = 1, clearProb = 0\<rparr>],
               newViruses = [\<lparr>ident = 0, maxBirthProb = 1, clearProb = 0\<rparr>],
               popDensity = 1/8\<rparr>,
            \<lparr>rng = (\<lambda>n. 1/2), pos = 2, nextId = 2\<rparr>)"
  by (simp add: Patient_update_def Patient_init_def doesClear_def random_random_def
        SimpleVirus_reproduce_def SimpleVirus_init_def
        fl_sub_def fl_mul_def fl_div_def round64_eighth round64_seven_eighths)

subsection \<open>Exceptions that leave \<^verbatim>\<open>update\<close>\<close>

text \<open>
  Claim C2: \<open>NoChildException\<close> is the only exception of the core, it never leaves
  \<^verbatim>\<open>update\<close>, and in particular no key-lookup error arises when an active drug is
  absent from a particle's non-empty resistance map. In \<^verbatim>\<open>TreatedPatient.update\<close> the
  subscript \<^verbatim>\<open>i.resistances[d]\<close> stands before the \<^verbatim>\<open>try\<close>, and in
  \<^verbatim>\<open>ResistantVirus.reproduce\<close> the subscript is evaluated before the membership test
  written next to it. Below, the particle's map has the key \<open>a\<close> only and the
  active drug is \<open>b\<close>: the update raises \<open>KeyError\<close>, and so does a direct call of
  \<^verbatim>\<open>reproduce\<close>.
\<close>

theorem TreatedPatient_update_raises_KeyError:
  "Prescriptions (addPrescription (Str ''b'')
      (TreatedPatient_init
         [\<lparr>ident = 0, maxBirthProb = 1, clearProb = 0, resistances = [(''a'', True)], mutProb = 0\<rparr>]
         8 [])) = [Str ''b''] \<and>
   TreatedPatient_update
       (addPrescription (Str ''b'')
          (TreatedPatient_init
             [\<lparr>ident = 0, maxBirthProb = 1, clearProb = 0, resistances = [(''a'', True)], mutProb = 0\<rparr>]
             8 []))
       \<lparr>rng = (\<lambda>n. 1/2), pos = 0, nextId = 1\<rparr> = Inl KeyError \<and>
   ResistantVirus_reproduce
       \<lparr>ident = 0, maxBirthProb = 1, clearProb = 0, resistances = [(''a'', True)], mutProb = 0\<rparr>
       (1/8) [Str ''b''] \<lparr>rng = (\<lambda>n. 1/2), pos = 1, nextId = 1\<rparr>
     = (Inl KeyError, \<lparr>rng = (\<lambda>n. 1/2), pos = 1, nextId = 1\<rparr>)"
  by (simp add: TreatedPatient_update_def TreatedPatient_init_def addPrescription_def
        doesClear_def random_random_def dict_getitem_def ResistantVirus_reproduce_def)

subsection \<open>The constructor's prescription argument\<close>

lemma getResistPop_loop_prescription:
  "getResistPop_loop vs ds (self\<lparr>prescription := x\<rparr>) =
     map_sum id (\<lambda>q. q\<lparr>prescription := x\<rparr>) (getResistPop_loop vs ds self)"
proof (induction vs arbitrary: self)
  case Nil
  then show ?case by simp
next
  case (Cons i vs)
  have swap: "self\<lparr>prescription := x, resistantViruses := k\<rparr>
                = self\<lparr>resistantViruses := k, prescription := x\<rparr>" for k
    by simp
  show ?case
  proof (cases "resists_loop i ds True")
    case (Inl e)
    then show ?thesis by simp
  next
    case (Inr resists)
    show ?thesis
    proof (cases resists)
      case True
      with Inr show ?thesis
        using Cons.IH [of "self\<lparr>resistantViruses := resistantViruses self + 1\<rparr>"]
        by (simp add: swap)
    next
      case False
      with Inr show ?thesis using Cons.IH [of self] by simp
    qed
  qed
qed

text \<open>
  Claim C10: the \<^verbatim>\<open>prescription\<close> argument of the \<^verbatim>\<open>TreatedPatient\<close> constructor
  does not influence the dynamics. Two containers that differ in the stored
  \<open>prescription\<close> only give the same results for \<^verbatim>\<open>update\<close>,
  \<^verbatim>\<open>addPrescription\<close>, \<^verbatim>\<open>getPrescriptions\<close>, \<^verbatim>\<open>getTotalPop\<close> and
  \<^verbatim>\<open>getResistPop\<close>: the same exception or the same number, the same draws consumed,
  and states that again differ in the stored \<open>prescription\<close> only.
\<close>

theorem prescription_argument_is_inert:
  "TreatedPatient_init vs m pr' = (TreatedPatient_init vs m pr)\<lparr>prescription := pr'\<rparr> \<and>
   addPrescription d (tp\<lparr>prescription := x\<rparr>) = (addPrescription d tp)\<lparr>prescription := x\<rparr> \<and>
   getPrescriptions (tp\<lparr>prescription := x\<rparr>) = getPrescriptions tp \<and>
   getTotalPop (tp\<lparr>prescription := x\<rparr>) = getTotalPop tp \<and>
   getResistPop ds (tp\<lparr>prescription := x\<rparr>) =
     map_sum id (\<lambda>(n, q). (n, q\<lparr>prescription := x\<rparr>)) (getResistPop ds tp) \<and>
   TreatedPatient_update (tp\<lparr>prescription := x\<rparr>) w =
     map_sum id (\<lambda>(n, q, w'). (n, q\<lparr>prescription := x\<rparr>, w')) (TreatedPatient_update tp w)"
proof -
  have init: "TreatedPatient_init vs m pr' = (TreatedPatient_init vs m pr)\<lparr>prescription := pr'\<rparr>"
    by (simp add: TreatedPatient_init_def)
  have add: "addPrescription d (tp\<lparr>prescription := x\<rparr>) = (addPrescription d tp)\<lparr>prescription := x\<rparr>"
    by (simp add: addPrescription_def addPrescription_loop_eq)
  have get: "getPrescriptions (tp\<lparr>prescription := x\<rparr>) = getPrescriptions tp"
    by (simp add: getPrescriptions_def)
  have tot: "getTotalPop (tp\<lparr>prescription := x\<rparr>) = getTotalPop tp"
    by (simp add: getTotalPop_def)
  have swap: "tp\<lparr>prescription := x, resistantViruses := 0\<rparr>
                = tp\<lparr>resistantViruses := 0, prescription := x\<rparr>"
    by simp
  have res: "getResistPop ds (tp\<lparr>prescription := x\<rparr>) =
     map_sum id (\<lambda>(n, q). (n, q\<lparr>prescription := x\<rparr>)) (getResistPop ds tp)"
    by (simp add: getResistPop_def swap getResistPop_loop_prescription split: sum.splits)
  have upd: "TreatedPatient_update (tp\<lparr>prescription := x\<rparr>) w =
     map_sum id (\<lambda>(n, q, w'). (n, q\<lparr>prescription := x\<rparr>, w')) (TreatedPatient_update tp w)"
    by (simp add: TreatedPatient_update_eq Let_def split: sum.splits prod.splits)
  from init add get tot res upd show ?thesis by blast
qed

section \<open>What the resistant series of the driver measures\<close>

subsection \<open>A population that never changes\<close>

text \<open>
  One particle that never clears at a draw of \<open>1/2\<close>, never reproduces
  (\<open>maxBirthProb = 0\<close>) and is not resistant to the drug \<open>a\<close>. Every update leaves
  the population as it is; the lemmas follow the two loops of the driver over such a
  population.
\<close>

lemma steady_update_untreated:
  assumes "viruses p = [\<lparr>ident = 0, maxBirthProb = 0, clearProb = 0,
                          resistances = [(''a'', False)], mutProb = 0\<rparr>]"
      and "maxPop p = 10" and "Prescriptions p = []" and "rng w = (\<lambda>n. 1/2)"
  shows "\<exists>p'. TreatedPatient_update p w = Inr (1, p', w\<lparr>pos := pos w + 3\<rparr>) \<and>
              viruses p' = viruses p \<and> maxPop p' = maxPop p \<and>
              Prescriptions p' = Prescriptions p \<and> prescription p' = prescription p"
  using assms
  by (simp add: TreatedPatient_update_def doesClear_def random_random_def
        ResistantVirus_reproduce_def dict_getitem_def
        fl_sub_def fl_mul_def round64_zero round64_one)

lemma steady_update_treated:
  assumes "viruses p = [\<lparr>ident = 0, maxBirthProb = 0, clearProb = 0,
                          resistances = [(''a'', False)], mutProb = 0\<rparr>]"
      and "maxPop p = 10" and "Prescriptions p = [Str ''a'']" and "rng w = (\<lambda>n. 1/2)"
  shows "\<exists>p'. TreatedPatient_update p w = Inr (1, p', w\<lparr>pos := pos w + 1\<rparr>) \<and>
              viruses p' = viruses p \<and> maxPop p' = maxPop p \<and>
              Prescriptions p' = Prescriptions p \<and> prescription p' = prescription p"
  using assms
  by (simp add: TreatedPatient_update_def doesClear_def random_random_def
        ResistantVirus_reproduce_def dict_getitem_def
        fl_sub_def fl_mul_def round64_zero round64_one)

lemma steady_count_all:
  assumes "viruses p = [\<lparr>ident = 0, maxBirthProb = 0, clearProb = 0,
                          resistances = [(''a'', False)], mutProb = 0\<rparr>]"
  shows "\<exists>p'. getResistPop [] p = Inr (1, p') \<and>
              viruses p' = viruses p \<and> maxPop p' = maxPop p \<and>
              Prescriptions p' = Prescriptions p \<and> prescription p' = prescription p"
  using assms by (simp add: getResistPop_def)

lemma steady_count_a:
  assumes "viruses p = [\<lparr>ident = 0, maxBirthProb = 0, clearProb = 0,
                          resistances = [(''a'', False)], mutProb = 0\<rparr>]"
  shows "\<exists>p'. getResistPop [Str ''a''] p = Inr (0, p') \<and>
              viruses p' = viruses p \<and> maxPop p' = maxPop p \<and>
              Prescriptions p' = Prescriptions p \<and> prescription p' = prescription p"
  using assms by (simp add: getResistPop_def isResistantTo_def dict_contains_def dict_getitem_def)

lemma first_phase_steady:
  assumes "viruses p = [\<lparr>ident = 0, maxBirthProb = 0, clearProb = 0,
                          resistances = [(''a'', False)], mutProb = 0\<rparr>]"
      and "maxPop p = 10" and "Prescriptions p = []" and "rng w = (\<lambda>n. 1/2)"
      and "getPrescriptions patient = []"
      and "length yV = k" and "length yD = k"
  shows "\<exists>p'. first_phase [k..<k + n] patient p yV yD w =
                 Inr (p', yV @ replicate n 1, yD @ replicate n 1, w\<lparr>pos := pos w + 3 * n\<rparr>) \<and>
              viruses p' = viruses p \<and> maxPop p' = maxPop p \<and>
              Prescriptions p' = Prescriptions p \<and> prescription p' = prescription p"
  using assms
proof (induction n arbitrary: p w yV yD k)
  case 0
  then show ?case by simp
next
  case (Suc n)
  obtain p1 where upd: "TreatedPatient_update p w = Inr (1, p1, w\<lparr>pos := pos w + 3\<rparr>)"
    and inv1: "viruses p1 = viruses p" "maxPop p1 = maxPop p"
              "Prescriptions p1 = Prescriptions p" "prescription p1 = prescription p"
    using steady_update_untreated [OF Suc.prems(1-4)] by blast
  obtain p2 where cnt: "getResistPop [] p1 = Inr (1, p2)"
    and inv2: "viruses p2 = viruses p1" "maxPop p2 = maxPop p1"
              "Prescriptions p2 = Prescriptions p1" "prescription p2 = prescription p1"
    using steady_count_all [of p1] inv1 Suc.prems(1) by auto
  have idx: "[k..<k + Suc n] = k # [Suc k..<Suc k + n]"
    by (simp add: upt_conv_Cons del: upt_Suc)
  have step: "first_phase [k..<k + Suc n] patient p yV yD w =
                first_phase [Suc k..<Suc k + n] patient p2 (yV @ [1]) (yD @ [1])
                  (w\<lparr>pos := pos w + 3\<rparr>)"
    unfolding idx using Suc.prems(1,5-7) upd cnt inv1
    by (simp add: accumulate_def accumulate_resist_def getTotalPop_def del: upt_Suc)
  have "\<exists>p'. first_phase [Suc k..<Suc k + n] patient p2 (yV @ [1]) (yD @ [1])
                 (w\<lparr>pos := pos w + 3\<rparr>) =
                 Inr (p', (yV @ [1]) @ replicate n 1, (yD @ [1]) @ replicate n 1,
                      w\<lparr>pos := pos w + 3\<rparr>\<lparr>pos := pos (w\<lparr>pos := pos w + 3\<rparr>) + 3 * n\<rparr>) \<and>
              viruses p' = viruses p2 \<and> maxPop p' = maxPop p2 \<and>
              Prescriptions p' = Prescriptions p2 \<and> prescription p' = prescription p2"
    using Suc.prems inv1 inv2 by (intro Suc.IH) simp_all
  then obtain p' where
    run: "first_phase [Suc k..<Suc k + n] patient p2 (yV @ [1]) (yD @ [1])
                 (w\<lparr>pos := pos w + 3\<rparr>) =
                 Inr (p', (yV @ [1]) @ replicate n 1, (yD @ [1]) @ replicate n 1,
                      w\<lparr>pos := pos w + 3\<rparr>\<lparr>pos := pos (w\<lparr>pos := pos w + 3\<rparr>) + 3 * n\<rparr>)"
    and inv3: "viruses p' = viruses p2" "maxPop p' = maxPop p2"
              "Prescriptions p' = Prescriptions p2" "prescription p' = prescription p2"
    by blast
  have w_eq: "w\<lparr>pos := pos w + 3\<rparr>\<lparr>pos := pos (w\<lparr>pos := pos w + 3\<rparr>) + 3 * n\<rparr>
                = w\<lparr>pos := pos w + 3 * Suc n\<rparr>"
    by simp
  have "first_phase [k..<k + Suc n] patient p yV yD w =
          Inr (p', yV @ replicate (Suc n) 1, yD @ replicate (Suc n) 1,
               w\<lparr>pos := pos w + 3 * Suc n\<rparr>)"
    unfolding step run w_eq by simp
  with inv1 inv2 inv3 show ?case by auto
qed


lemma second_phase_steady:
  assumes "viruses p = [\<lparr>ident = 0, maxBirthProb = 0, clearProb = 0,
                          resistances = [(''a'', False)], mutProb = 0\<rparr>]"
      and "maxPop p = 10" and "Prescriptions p = [Str ''a'']" and "rng w = (\<lambda>n. 1/2)"
      and "length yV = k + 150" and "length yD = k + 150"
  shows "\<exists>p'. second_phase [k..<k + n] p yV yD w =
                 Inr (p', yV @ replicate n 1, yD @ replicate n 0, w\<lparr>pos := pos w + n\<rparr>)"
  using assms
proof (induction n arbitrary: p w yV yD k)
  case 0
  then show ?case by simp
next
  case (Suc n)
  obtain p1 where upd: "TreatedPatient_update p w = Inr (1, p1, w\<lparr>pos := pos w + 1\<rparr>)"
    and inv1: "viruses p1 = viruses p" "maxPop p1 = maxPop p"
              "Prescriptions p1 = Prescriptions p"
    using steady_update_treated [OF Suc.prems(1-4)] by blast
  obtain p2 where cnt: "getResistPop [Str ''a''] p1 = Inr (0, p2)"
    and inv2: "viruses p2 = viruses p1" "maxPop p2 = maxPop p1"
              "Prescriptions p2 = Prescriptions p1"
    using steady_count_a [of p1] inv1 Suc.prems(1) by auto
  have idx: "[k..<k + Suc n] = k # [Suc k..<Suc k + n]"
    by (simp add: upt_conv_Cons del: upt_Suc)
  have step: "second_phase [k..<k + Suc n] p yV yD w =
                second_phase [Suc k..<Suc k + n] p2 (yV @ [1]) (yD @ [0])
                  (w\<lparr>pos := pos w + 1\<rparr>)"
    unfolding idx using Suc.prems(1,3,5,6) upd cnt inv1
    by (simp add: accumulate_def accumulate_resist_def getTotalPop_def getPrescriptions_def
             del: upt_Suc)
  have "\<exists>p'. second_phase [Suc k..<Suc k + n] p2 (yV @ [1]) (yD @ [0])
                 (w\<lparr>pos := pos w + 1\<rparr>) =
                 Inr (p', (yV @ [1]) @ replicate n 1, (yD @ [0]) @ replicate n 0,
                      w\<lparr>pos := pos w + 1\<rparr>\<lparr>pos := pos (w\<lparr>pos := pos w + 1\<rparr>) + n\<rparr>)"
    using Suc.prems inv1 inv2 by (intro Suc.IH) simp_all
  then obtain p' where
    run: "second_phase [Suc k..<Suc k + n] p2 (yV @ [1]) (yD @ [0])
                 (w\<lparr>pos := pos w + 1\<rparr>) =
                 Inr (p', (yV @ [1]) @ replicate n 1, (yD @ [0]) @ replicate n 0,
                      w\<lparr>pos := pos w + 1\<rparr>\<lparr>pos := pos (w\<lparr>pos := pos w + 1\<rparr>) + n\<rparr>)"
    by blast
  have w_eq: "w\<lparr>pos := pos w + 1\<rparr>\<lparr>pos := pos (w\<lparr>pos := pos w + 1\<rparr>) + n\<rparr>
                = w\<lparr>pos := pos w + Suc n\<rparr>"
    by simp
  have "second_phase [k..<k + Suc n] p yV yD w =
          Inr (p', yV @ replicate (Suc n) 1, yD @ replicate (Suc n) 0,
               w\<lparr>pos := pos w + Suc n\<rparr>)"
    unfolding step run w_eq by simp
  then show ?case by blast
qed

subsection \<open>The drug subset of the resistant series\<close>

text \<open>
  Claim C3: the resistant-population series of the treated driver is measured against
  one drug subset, fixed at the start of the trial and the same before and after the
  prescription. The first loop of \<^verbatim>\<open>simulationWithDrug\<close> counts with
  \<^verbatim>\<open>patient.getPrescriptions()\<close>, the active-drug list of the function's argument,
  which is empty unless the caller has administered drugs to that object; the second loop
  counts with \<^verbatim>\<open>p.getPrescriptions()\<close>, the drugs just administered to the trial's
  own patient. Below, the prescription is the drug \<open>a\<close> and the population is one
  particle, not resistant to \<open>a\<close>, in all \<open>300\<close> steps: the two subsets are \<open>[]\<close>
  and \<open>[a]\<close>, and the resistant series reads \<open>1\<close> for the first \<open>150\<close> steps and
  \<open>0\<close> for the last \<open>150\<close>, while the total population is \<open>1\<close> throughout.
\<close>

theorem simulationWithDrug_changes_subset:
  "getPrescriptions
     (TreatedPatient_init
        [\<lparr>ident = 0, maxBirthProb = 0, clearProb = 0, resistances = [(''a'', False)], mutProb = 0\<rparr>]
        10 [Str ''a'']) = [] \<and>
   getPrescriptions
     (fold addPrescription [Str ''a'']
        (TreatedPatient_init
           [\<lparr>ident = 0, maxBirthProb = 0, clearProb = 0, resistances = [(''a'', False)], mutProb = 0\<rparr>]
           10 [])) = [Str ''a''] \<and>
   map_sum id fst
     (getResistPop []
        (TreatedPatient_init
           [\<lparr>ident = 0, maxBirthProb = 0, clearProb = 0, resistances = [(''a'', False)], mutProb = 0\<rparr>]
           10 [])) = Inr 1 \<and>
   map_sum id fst
     (getResistPop [Str ''a'']
        (TreatedPatient_init
           [\<lparr>ident = 0, maxBirthProb = 0, clearProb = 0, resistances = [(''a'', False)], mutProb = 0\<rparr>]
           10 [])) = Inr 0 \<and>
   simulationWithDrug
       \<lparr>ident = 0, maxBirthProb = 0, clearProb = 0, resistances = [(''a'', False)], mutProb = 0\<rparr>
       (TreatedPatient_init
          [\<lparr>ident = 0, maxBirthProb = 0, clearProb = 0, resistances = [(''a'', False)], mutProb = 0\<rparr>]
          10 [Str ''a''])
       1 \<lparr>rng = (\<lambda>n. 1/2), pos = 0, nextId = 1\<rparr>
     = Inr (replicate 300 1, replicate 150 1 @ replicate 150 0,
            \<lparr>rng = (\<lambda>n. 1/2), pos = 600, nextId = 1\<rparr>)"
proof -
  let ?v = "\<lparr>ident = 0, maxBirthProb = 0, clearProb = 0,
             resistances = [(''a'', False)], mutProb = 0\<rparr>"
  let ?patient = "TreatedPatient_init [?v] 10 [Str ''a'']"
  let ?p = "TreatedPatient_init [?v] 10 []"
  let ?w = "\<lparr>rng = (\<lambda>n. 1/2), pos = 0, nextId = 1\<rparr>"
  have before: "getPrescriptions ?patient = []"
    by (simp add: getPrescriptions_def TreatedPatient_init_def)
  have after: "getPrescriptions (fold addPrescription [Str ''a''] ?p) = [Str ''a'']"
    by (simp add: getPrescriptions_def TreatedPatient_init_def addPrescription_def)
  have count_all: "map_sum id fst (getResistPop [] ?p) = Inr 1"
    by (simp add: getResistPop_def TreatedPatient_init_def)
  have count_a: "map_sum id fst (getResistPop [Str ''a''] ?p) = Inr 0"
    by (simp add: getResistPop_def TreatedPatient_init_def isResistantTo_def
          dict_contains_def dict_getitem_def)
  obtain p1 where ph1: "first_phase [0..<0 + 150] ?patient ?p [] [] ?w =
        Inr (p1, [] @ replicate 150 1, [] @ replicate 150 1, ?w\<lparr>pos := pos ?w + 3 * 150\<rparr>)"
    and inv: "viruses p1 = viruses ?p" "maxPop p1 = maxPop ?p"
             "Prescriptions p1 = Prescriptions ?p"
    using first_phase_steady [of ?p ?w ?patient "[]" 0 "[]" 150]
    by (auto simp: TreatedPatient_init_def getPrescriptions_def)
  let ?p2 = "fold addPrescription (prescription ?patient) p1"
  have p2: "viruses ?p2 = [?v]" "maxPop ?p2 = 10" "Prescriptions ?p2 = [Str ''a'']"
    using inv by (simp_all add: TreatedPatient_init_def addPrescription_def)
  obtain p3 where ph2: "second_phase [0..<0 + 150] ?p2 (replicate 150 1) (replicate 150 1)
          (?w\<lparr>pos := 450\<rparr>) =
        Inr (p3, replicate 150 1 @ replicate 150 1, replicate 150 1 @ replicate 150 0,
             ?w\<lparr>pos := 450\<rparr>\<lparr>pos := pos (?w\<lparr>pos := 450\<rparr>) + 150\<rparr>)"
    using second_phase_steady [of ?p2 "?w\<lparr>pos := 450\<rparr>" "replicate 150 1" 0 "replicate 150 1" 150] p2
    by auto
  have trial: "trials_loop [0] ?patient [] [] ?w =
        Inr (replicate 300 1, replicate 150 1 @ replicate 150 0, ?w\<lparr>pos := 600\<rparr>)"
    using ph1 ph2 by (simp add: TreatedPatient_init_def replicate_add [symmetric])
  have "simulationWithDrug ?v ?patient 1 ?w =
          Inr (replicate 300 1, replicate 150 1 @ replicate 150 0, ?w\<lparr>pos := 600\<rparr>)"
    using trial by (simp add: simulationWithDrug_def fl_div_def round64_zero round64_one)
  with before after count_all count_a show ?thesis by simp
qed

end
